theory Spec2Isabelle
  imports Main
begin

section \<open>tinysh: a shallow embedding of the command engine\<close>

text \<open>
  The development follows the newer of the two variants of \<^verbatim>\<open>tinysh.c\<close> in the
  repository (the one whose handlers return \<^verbatim>\<open>int\<close> status codes); the classifier is
  word for word the same in both variants.

  A \<^verbatim>\<open>char **\<close> argument vector is a NULL-terminated array of C strings. It is modelled
  as the \<open>string list\<close> of the entries in front of the terminating NULL, so that
  \<^verbatim>\<open>cmd[i]\<close> is the \<open>i\<close>-th element for \<open>i < length cmd\<close> and NULL for
  \<open>i = length cmd\<close>. \<^verbatim>\<open>strcmp(a, b) == 0\<close> is equality of the strings.

  \<^verbatim>\<open>malloc\<close>, \<^verbatim>\<open>realloc\<close> and \<^verbatim>\<open>strdup\<close> are taken to succeed, and the counters of type
  \<^verbatim>\<open>int\<close> and \<^verbatim>\<open>size_t\<close> are natural numbers: a vector long enough to wrap them does not
  fit into memory.
\<close>

subsection \<open>Feature classifier\<close>

text \<open>
  \<^verbatim>\<open>is_special_feature\<close>: the loop walks \<^verbatim>\<open>cmd[i]\<close> up to the NULL and returns at the
  first token that is one of the three operators, testing \<^verbatim>\<open>">>"\<close>, then \<^verbatim>\<open>">"\<close>, then
  \<^verbatim>\<open>"|"\<close>; it returns 0 when the NULL is reached.
\<close>

fun is_special_feature :: "string list \<Rightarrow> int" where
  "is_special_feature [] = 0"
| "is_special_feature (c # cmd) =
     (if c = ''>>'' then 1
      else if c = ''>'' then 2
      else if c = ''|'' then 3
      else is_special_feature cmd)"

text \<open>The three operator tokens, and the code the classifier's comment assigns to each.\<close>

definition is_operator :: "string \<Rightarrow> bool" where
  "is_operator t \<longleftrightarrow> t = ''>>'' \<or> t = ''>'' \<or> t = ''|''"

definition feature_code :: "string \<Rightarrow> int" where
  "feature_code t = (if t = ''>>'' then 1 else if t = ''>'' then 2 else if t = ''|'' then 3 else 0)"

subsection \<open>Tokenizer\<close>

text \<open>
  Undefined behaviour of the C program is a value of the model: a write past the end of a
  heap block, or a NULL pointer handed to a function that reads through it.
\<close>

datatype fault = HeapOverflow | NullPointer

text \<open>
  \<^verbatim>\<open>strspn\<close> and \<^verbatim>\<open>strcspn\<close> measure the longest prefix made of (respectively free of) the
  bytes of the second string. \<^verbatim>\<open>strtok_r(s, delim, &save)\<close> follows glibc: it returns NULL
  on an empty string, skips leading delimiters, returns NULL if nothing is left, and
  otherwise returns the token up to the next delimiter; the saved pointer is the end of the
  string when the token reaches it, and the byte after the overwritten delimiter otherwise.
  The result is the pair of the token and the saved pointer's string.
\<close>

definition strspn :: "string \<Rightarrow> string \<Rightarrow> nat" where
  "strspn s accept = length (takeWhile (\<lambda>c. c \<in> set accept) s)"

definition strcspn :: "string \<Rightarrow> string \<Rightarrow> nat" where
  "strcspn s reject = length (takeWhile (\<lambda>c. c \<notin> set reject) s)"

definition strtok_r :: "string \<Rightarrow> string \<Rightarrow> (string \<times> string) option" where
  "strtok_r s delim =
     (if s = [] then None
      else let s1 = drop (strspn s delim) s in
        if s1 = [] then None
        else let n = strcspn s1 delim in
          if drop n s1 = [] then Some (s1, [])
          else Some (take n s1, drop (Suc n) s1))"

lemma strtok_r_shorter: "strtok_r s delim = Some (tok, rest) \<Longrightarrow> length rest < length s"
  by (auto simp: strtok_r_def Let_def split: if_splits)

text \<open>
  The loop of \<^verbatim>\<open>tokenizer\<close>: \<^verbatim>\<open>ctx\<close> is the variable \<^verbatim>\<open>context\<close> of the source (both
  the string argument and the save pointer of \<^verbatim>\<open>strtok_r\<close>), \<open>tokens\<close> are the
  \<^verbatim>\<open>tok_used\<close> entries stored so far and \<open>capacity\<close> is the size of the block behind
  \<^verbatim>\<open>tokens\<close>, doubled by \<^verbatim>\<open>realloc\<close> when \<^verbatim>\<open>tok_used == capacity\<close>. The store
  \<^verbatim>\<open>tokens[tok_used++] = strdup(tok)\<close> is a heap overflow unless \<^verbatim>\<open>tok_used\<close> is below the
  size of the block. Allocation is taken to succeed.
\<close>

function tokenizer_loop :: "string \<Rightarrow> string \<Rightarrow> string list \<Rightarrow> nat \<Rightarrow> fault + string list" where
  "tokenizer_loop delim ctx tokens capacity =
     (case strtok_r ctx delim of
        None \<Rightarrow> Inr tokens
      | Some (tok, ctx') \<Rightarrow>
          (let capacity' = (if length tokens = capacity then capacity * 2 else capacity) in
           if length tokens < capacity'
           then tokenizer_loop delim ctx' (tokens @ [tok]) capacity'
           else Inl HeapOverflow))"
  by pat_completeness auto
termination
  by (relation "measure (\<lambda>(delim, ctx, tokens, capacity). length ctx)")
     (auto dest: strtok_r_shorter)

declare tokenizer_loop.simps [simp del]

text \<open>
  \<^verbatim>\<open>tokenizer(input, delim, &tok_num)\<close>: the initial capacity comes from the caller's
  estimate in \<^verbatim>\<open>*tok_num\<close>. The result is the returned pointer (NULL, here \<open>None\<close>, when no
  token was found; otherwise the vector, NULL-terminated after a last \<^verbatim>\<open>realloc\<close> to
  \<^verbatim>\<open>tok_used + 1\<close> entries) and the value stored in \<^verbatim>\<open>*tok_num\<close>.
\<close>

definition tokenizer :: "string \<Rightarrow> string \<Rightarrow> nat \<Rightarrow> fault + (string list option \<times> nat)" where
  "tokenizer input delim tok_num =
     (let capacity = (if tok_num > 0 then tok_num div 4 + 1 else 3) in
      case tokenizer_loop delim input [] capacity of
        Inl e \<Rightarrow> Inl e
      | Inr tokens \<Rightarrow>
          Inr (if length tokens = 0 then None else Some tokens, length tokens))"

text \<open>
  The specification's wording, for comparison with the code: the maximal non-delimiter
  substrings of a line are the non-empty fields between consecutive delimiter bytes.
\<close>

fun fields :: "char set \<Rightarrow> string \<Rightarrow> string list" where
  "fields D [] = [[]]"
| "fields D (c # cs) =
     (if c \<in> D then [] # fields D cs
      else (case fields D cs of [] \<Rightarrow> [[c]] | f # fs \<Rightarrow> (c # f) # fs))"

definition maximal_runs :: "char set \<Rightarrow> string \<Rightarrow> string list" where
  "maximal_runs D s = filter (\<lambda>f. f \<noteq> []) (fields D s)"




lemma strtok_r_alt:
  "strtok_r s delim =
     (let s1 = dropWhile (\<lambda>c. c \<in> set delim) s in
      if s1 = [] then None
      else Some (takeWhile (\<lambda>c. c \<notin> set delim) s1, drop 1 (dropWhile (\<lambda>c. c \<notin> set delim) s1)))"
proof -
  define s1 where "s1 = dropWhile (\<lambda>c. c \<in> set delim) s"
  define n where "n = strcspn s1 delim"
  define t where "t = takeWhile (\<lambda>c. c \<notin> set delim) s1"
  define r where "r = dropWhile (\<lambda>c. c \<notin> set delim) s1"
  have a: "drop (strspn s delim) s = s1"
    unfolding s1_def strspn_def by (rule dropWhile_eq_drop [symmetric])
  have tk: "take n s1 = t"
    unfolding n_def t_def strcspn_def by (rule takeWhile_eq_take [symmetric])
  have dr: "drop n s1 = r"
    unfolding n_def r_def strcspn_def by (rule dropWhile_eq_drop [symmetric])
  have tr: "t @ r = s1"
    unfolding t_def r_def by (rule takeWhile_dropWhile_id)
  have sn: "drop (Suc n) s1 = drop 1 r"
    using dr by (metis One_nat_def drop_drop plus_1_eq_Suc)
  have st: "strtok_r s delim =
      (if s = [] then None else if s1 = [] then None
       else if drop n s1 = [] then Some (s1, []) else Some (take n s1, drop (Suc n) s1))"
    unfolding strtok_r_def Let_def a n_def [symmetric] by (rule refl)
  have e: "s = [] \<Longrightarrow> s1 = []" by (simp add: s1_def)
  have "strtok_r s delim = (if s1 = [] then None else Some (t, drop 1 r))"
  proof (cases "r = []")
    case True
    with tr have "t = s1" by simp
    with True e show ?thesis by (auto simp: st dr)
  next
    case False
    with e show ?thesis by (auto simp: st dr tk sn)
  qed
  then show ?thesis
    unfolding Let_def s1_def t_def r_def .
qed

lemma fields_nonempty: "fields D s \<noteq> []"
  by (induction s) (auto split: list.splits)

lemma fields_run:
  "\<forall>c \<in> set t. c \<notin> D \<Longrightarrow> fields D (t @ s) = (t @ hd (fields D s)) # tl (fields D s)"
  by (induction t) (auto simp: fields_nonempty split: list.splits)

lemma maximal_runs_gap:
  "\<forall>c \<in> set g. c \<in> D \<Longrightarrow> maximal_runs D (g @ s) = maximal_runs D s"
  by (induction g) (auto simp: maximal_runs_def)

lemma maximal_runs_Nil: "maximal_runs D [] = []"
  by (simp add: maximal_runs_def)

lemma maximal_runs_run:
  assumes "t \<noteq> []" "\<forall>c \<in> set t. c \<notin> D" "s = [] \<or> hd s \<in> D"
  shows "maximal_runs D (t @ s) = t # maximal_runs D (drop 1 s)"
proof (cases s)
  case Nil
  with assms fields_run [of t D "[]"] show ?thesis by (simp add: maximal_runs_def)
next
  case (Cons c cs)
  with assms fields_run [of t D "c # cs"] show ?thesis by (simp add: maximal_runs_def)
qed

lemma maximal_runs_strtok_r:
  "maximal_runs (set delim) s =
     (case strtok_r s delim of None \<Rightarrow> [] | Some (tok, rest) \<Rightarrow> tok # maximal_runs (set delim) rest)"
proof -
  define D where "D = set delim"
  define g where "g = takeWhile (\<lambda>c. c \<in> D) s"
  define s1 where "s1 = dropWhile (\<lambda>c. c \<in> D) s"
  define t where "t = takeWhile (\<lambda>c. c \<notin> D) s1"
  define r where "r = dropWhile (\<lambda>c. c \<notin> D) s1"
  have st: "strtok_r s delim = (if s1 = [] then None else Some (t, drop 1 r))"
    unfolding strtok_r_alt Let_def s1_def t_def r_def D_def by (rule refl)
  have gs: "g @ s1 = s" unfolding g_def s1_def by (rule takeWhile_dropWhile_id)
  have tr: "t @ r = s1" unfolding t_def r_def by (rule takeWhile_dropWhile_id)
  have gD: "\<forall>c \<in> set g. c \<in> D" unfolding g_def by (blast dest: set_takeWhileD)
  have tD: "\<forall>c \<in> set t. c \<notin> D" unfolding t_def by (blast dest: set_takeWhileD)
  have m: "maximal_runs D s = maximal_runs D s1"
    using maximal_runs_gap [OF gD, of s1] by (simp only: gs)
  have "maximal_runs D s = (if s1 = [] then [] else t # maximal_runs D (drop 1 r))"
  proof (cases "s1 = []")
    case True
    then show ?thesis by (simp add: m maximal_runs_Nil)
  next
    case False
    then have "hd s1 \<notin> D" unfolding s1_def by (rule hd_dropWhile)
    with False have t: "t \<noteq> []" unfolding t_def by (cases s1) simp_all
    have r: "r = [] \<or> hd r \<in> D"
    proof (cases "r = []")
      case True
      then show ?thesis by (rule disjI1)
    next
      case r: False
      then have "\<not> hd r \<notin> D" unfolding r_def by (rule hd_dropWhile)
      then show ?thesis by simp
    qed
    have "maximal_runs D (t @ r) = t # maximal_runs D (drop 1 r)"
      using t tD r by (rule maximal_runs_run)
    with False show ?thesis by (simp add: m tr)
  qed
  then show ?thesis
    unfolding st D_def [symmetric] by (simp split: if_splits)
qed

lemma tokenizer_loop_runs:
  "length tokens \<le> capacity \<Longrightarrow> 0 < capacity \<Longrightarrow>
     tokenizer_loop delim ctx tokens capacity = Inr (tokens @ maximal_runs (set delim) ctx)"
proof (induction delim ctx tokens capacity rule: tokenizer_loop.induct)
  case (1 delim ctx tokens capacity)
  show ?case
  proof (cases "strtok_r ctx delim")
    case None
    then show ?thesis
      using maximal_runs_strtok_r [of delim ctx] by (simp add: tokenizer_loop.simps)
  next
    case (Some p)
    obtain tok rest where p: "p = (tok, rest)" by (cases p)
    let ?c = "if length tokens = capacity then capacity * 2 else capacity"
    have lt: "length tokens < ?c" using "1.prems" by auto
    have "tokenizer_loop delim rest (tokens @ [tok]) ?c
            = Inr ((tokens @ [tok]) @ maximal_runs (set delim) rest)"
      using "1.IH" [OF Some p [symmetric] refl lt] lt "1.prems" by auto
    then show ?thesis
      using Some p lt maximal_runs_strtok_r [of delim ctx]
      by (subst tokenizer_loop.simps) (simp add: Let_def)
  qed
qed

subsection \<open>Pipeline splitter\<close>

text \<open>
  The first half of \<^verbatim>\<open>special_command\<close> partitions \<^verbatim>\<open>cmd\<close> around its first operator.
  \<^verbatim>\<open>head\<close> and \<^verbatim>\<open>tail\<close> are two heap blocks of \<^verbatim>\<open>capacity\<close> pointers each, and the
  single variable \<^verbatim>\<open>capacity\<close> is doubled by whichever loop reallocates its block. The
  model carries the variable and the size of the block being filled side by side; a store
  at an index outside the block is \<open>HeapOverflow\<close>. The first loop passes \<^verbatim>\<open>cmd[i]\<close> to
  \<^verbatim>\<open>strcmp\<close> without testing it, so running into the terminating NULL is \<open>NullPointer\<close>.
  The test \<^verbatim>\<open>j >= capacity - 1\<close> is written \<open>capacity \<le> j + 1\<close> on natural numbers.
\<close>

fun head_loop :: "string list \<Rightarrow> string list \<Rightarrow> nat \<Rightarrow> nat
    \<Rightarrow> fault + (string list \<times> string list \<times> nat \<times> nat)" where
  "head_loop [] head capacity head_size = Inl NullPointer"
| "head_loop (c # cmd) head capacity head_size =
     (if c = ''|'' \<or> c = ''>'' \<or> c = ''>>'' then Inr (head, c # cmd, capacity, head_size)
      else
        let capacity' = (if length head + 1 \<ge> capacity then capacity * 2 else capacity);
            head_size' = (if length head + 1 \<ge> capacity then capacity * 2 else head_size)
        in if length head < head_size'
           then head_loop cmd (head @ [c]) capacity' head_size'
           else Inl HeapOverflow)"

fun tail_loop :: "string list \<Rightarrow> string list \<Rightarrow> nat \<Rightarrow> nat \<Rightarrow> fault + string list" where
  "tail_loop [] tail capacity tail_size =
     (if length tail < tail_size then Inr tail else Inl HeapOverflow)"
| "tail_loop (c # cmd) tail capacity tail_size =
     (let capacity' = (if length tail + 1 \<ge> capacity then capacity * 2 else capacity);
          tail_size' = (if length tail + 1 \<ge> capacity then capacity * 2 else tail_size)
      in if length tail < tail_size'
         then tail_loop cmd (tail @ [c]) capacity' tail_size'
         else Inl HeapOverflow)"

text \<open>
  The split of \<^verbatim>\<open>special_command(cmd, num_cmd, type)\<close>: the initial capacity, the two
  \<^verbatim>\<open>malloc\<close>s, the head loop, \<^verbatim>\<open>head[j] = NULL\<close>, the skipped operator, the tail loop (its
  block still has the initial size, its capacity variable is what the head loop left) and
  \<^verbatim>\<open>tail[k] = NULL\<close>.
\<close>

definition split_command :: "string list \<Rightarrow> nat \<Rightarrow> fault + (string list \<times> string list)" where
  "split_command cmd num_cmd =
     (let capacity = (if num_cmd > 0 then num_cmd div 2 + 1 else 3) in
      case head_loop cmd [] capacity capacity of
        Inl e \<Rightarrow> Inl e
      | Inr (head, rest, capacity', head_size) \<Rightarrow>
          if length head < head_size
          then (case tail_loop (drop 1 rest) [] capacity' capacity of
                  Inl e \<Rightarrow> Inl e
                | Inr tail \<Rightarrow> Inr (head, tail))
          else Inl HeapOverflow)"


lemma head_loop_split:
  assumes "\<forall>t \<in> set pre. \<not> is_operator t" "is_operator op" "length head < capacity"
  shows "\<exists>capacity'. head_loop (pre @ op # post) head capacity capacity
            = Inr (head @ pre, op # post, capacity', capacity')
          \<and> capacity \<le> capacity' \<and> length head + length pre < capacity'
          \<and> (length head + length pre < capacity \<longrightarrow> capacity' = capacity)
          \<and> (capacity \<le> length head + length pre \<longrightarrow> 2 * capacity \<le> capacity')"
  using assms
proof (induction pre arbitrary: head capacity)
  case Nil
  then show ?case by (auto simp: is_operator_def)
next
  case (Cons c pre)
  let ?c = "if length head + 1 \<ge> capacity then capacity * 2 else capacity"
  have c: "\<not> (c = ''|'' \<or> c = ''>'' \<or> c = ''>>'')" using Cons.prems by (auto simp: is_operator_def)
  have lt: "length (head @ [c]) < ?c" using Cons.prems by auto
  from Cons.IH [OF _ Cons.prems(2) lt] Cons.prems(1)
  obtain capacity' where
    h: "head_loop (pre @ op # post) (head @ [c]) ?c ?c = Inr ((head @ [c]) @ pre, op # post, capacity', capacity')"
    and b: "?c \<le> capacity'" "length (head @ [c]) + length pre < capacity'"
      "length (head @ [c]) + length pre < ?c \<longrightarrow> capacity' = ?c"
      "?c \<le> length (head @ [c]) + length pre \<longrightarrow> 2 * ?c \<le> capacity'"
    by auto
  have "head_loop ((c # pre) @ op # post) head capacity capacity
          = head_loop (pre @ op # post) (head @ [c]) ?c ?c"
    using c Cons.prems(3) by (simp add: Let_def)
  with h b Cons.prems(3) show ?case
    by (intro exI [of _ capacity']) (auto split: if_splits)
qed

lemma tail_loop_in_step:
  "length tail < capacity \<Longrightarrow> tail_loop cmd tail capacity capacity = Inr (tail @ cmd)"
proof (induction cmd arbitrary: tail capacity)
  case Nil
  then show ?case by simp
next
  case (Cons c cmd)
  let ?c = "if length tail + 1 \<ge> capacity then capacity * 2 else capacity"
  have "length (tail @ [c]) < ?c" using Cons.prems by auto
  from Cons.IH [OF this] Cons.prems show ?case by (simp add: Let_def)
qed

lemma tail_loop_fits:
  "tail_size \<le> capacity \<Longrightarrow> length tail + length cmd < tail_size
     \<Longrightarrow> tail_loop cmd tail capacity tail_size = Inr (tail @ cmd)"
proof (induction cmd arbitrary: tail capacity tail_size)
  case Nil
  then show ?case by simp
next
  case (Cons c cmd)
  show ?case
  proof (cases "length tail + 1 \<ge> capacity")
    case True
    then show ?thesis
      using tail_loop_in_step [of "tail @ [c]" "capacity * 2" cmd] Cons.prems by (simp add: Let_def)
  next
    case False
    then show ?thesis
      using Cons.IH [of tail_size capacity "tail @ [c]"] Cons.prems by (simp add: Let_def)
  qed
qed

lemma tail_loop_overflows:
  "length tail \<le> tail_size \<Longrightarrow> tail_size \<le> length tail + length cmd
     \<Longrightarrow> tail_size + 2 \<le> capacity
     \<Longrightarrow> tail_loop cmd tail capacity tail_size = Inl HeapOverflow"
proof (induction cmd arbitrary: tail)
  case Nil
  then show ?case by simp
next
  case (Cons c cmd)
  show ?case
  proof (cases "length tail = tail_size")
    case True
    then show ?thesis using Cons.prems by (simp add: Let_def)
  next
    case False
    then show ?thesis
      using Cons.IH [of "tail @ [c]"] Cons.prems by (simp add: Let_def)
  qed
qed

lemma split_command_exact:
  assumes "\<forall>t \<in> set pre. \<not> is_operator t" "is_operator op"
  shows "split_command (pre @ op # post) (length (pre @ op # post)) = Inr (pre, post)"
proof -
  let ?cap = "length (pre @ op # post) div 2 + 1"
  from head_loop_split [OF assms, of "[]" ?cap post]
  obtain capacity' where
    h: "head_loop (pre @ op # post) [] ?cap ?cap = Inr (pre, op # post, capacity', capacity')"
    and b: "?cap \<le> capacity'" "length pre < capacity'"
      "length pre < ?cap \<longrightarrow> capacity' = ?cap"
    by auto
  have "tail_loop post [] capacity' ?cap = Inr post"
  proof (cases "length pre < ?cap")
    case True
    with b tail_loop_in_step [of "[]" ?cap post] show ?thesis by simp
  next
    case False
    then have "length post < ?cap" by simp
    with b tail_loop_fits [of ?cap capacity' "[]" post] show ?thesis by simp
  qed
  with h b(2) show ?thesis by (simp add: split_command_def)
qed

lemma split_command_no_hint:
  assumes "\<forall>t \<in> set pre. \<not> is_operator t" "is_operator op"
  shows "split_command (pre @ op # post) 0 =
           (if length pre < 3 \<or> length post < 3 then Inr (pre, post) else Inl HeapOverflow)"
proof -
  from head_loop_split [OF assms, of "[]" 3 post]
  obtain capacity' where
    h: "head_loop (pre @ op # post) [] 3 3 = Inr (pre, op # post, capacity', capacity')"
    and b: "3 \<le> capacity'" "length pre < capacity'"
      "length pre < 3 \<longrightarrow> capacity' = 3" "3 \<le> length pre \<longrightarrow> 6 \<le> capacity'"
    by auto
  consider "length pre < 3" | "3 \<le> length pre" "length post < 3" | "3 \<le> length pre" "3 \<le> length post"
    by linarith
  then have "tail_loop post [] capacity' 3 =
           (if length pre < 3 \<or> length post < 3 then Inr post else Inl HeapOverflow)"
  proof cases
    case 1
    with b tail_loop_in_step [of "[]" 3 post] show ?thesis by simp
  next
    case 2
    with b tail_loop_fits [of 3 capacity' "[]" post] show ?thesis by simp
  next
    case 3
    with b tail_loop_overflows [of "[]" 3 post capacity'] show ?thesis by simp
  qed
  with h b(2) show ?thesis by (simp add: split_command_def)
qed

section \<open>Processes, system calls and the handlers\<close>

subsection \<open>The operating system as seen by the shell\<close>

text \<open>
  A run of the shell is a sequence of events: the system calls the processes issue, what
  they print, and how they end. System calls are answered by an oracle \<open>os\<close>: the
  \<open>t\<close>-th call of a run fails with \<open>errno\<close> \<open>e\<close> when \<open>fails os t = Some e\<close> and succeeds
  otherwise; \<open>runs os t\<close> is how the program started by a successful \<^verbatim>\<open>execvp\<close> at step
  \<open>t\<close> terminates (the decoded wait status). \<open>home\<close> is \<^verbatim>\<open>getenv("HOME")\<close> and \<open>cwd os t\<close>
  the directory a successful \<^verbatim>\<open>getcwd\<close> at step \<open>t\<close> reports.

  Descriptors and process ids are named after the step that creates them: the pipe made at
  step \<open>t\<close> has the ends \<open>PipeRead t\<close> and \<open>PipeWrite t\<close>, \<^verbatim>\<open>open\<close> at step \<open>t\<close> returns
  \<open>FileFd t\<close>, \<^verbatim>\<open>dup\<close> returns \<open>DupFd t\<close>, and \<^verbatim>\<open>fork\<close> at step \<open>t\<close> creates process
  \<open>Suc t\<close>. A call carries the names it would return.
\<close>

datatype errno = ENOENT | EACCES | EFAULT | EAGAIN | EMFILE | ECHILD | EINTR | EIO

datatype wstatus = Exited nat | Signaled nat

definition SIGINT :: nat where "SIGINT = 2"
definition SIGQUIT :: nat where "SIGQUIT = 3"
definition SIGSEGV :: nat where "SIGSEGV = 11"
definition EXIT_SUCCESS :: nat where "EXIT_SUCCESS = 0"
definition EXIT_FAILURE :: nat where "EXIT_FAILURE = 1"

datatype fd = STDIN_FILENO | STDOUT_FILENO | PipeRead nat | PipeWrite nat | FileFd nat | DupFd nat

datatype open_flags = O_TRUNC | O_APPEND

datatype call =
    Fork nat
  | Pipe fd fd
  | Close fd
  | Dup fd fd
  | Dup2 fd fd
  | Open "string option" open_flags fd
  | Execvp "string" "string list"
  | Wait
  | Waitpid nat
  | Chdir "string option"
  | Getcwd

datatype event =
    Sys nat call "errno option"
  | Printf nat string "string option list"
  | Dprintf nat fd string "string option list"
  | Perror nat string
  | Stderr nat string
  | Exit nat nat
  | Undefined nat fault

record os =
  fails :: "nat \<Rightarrow> errno option"
  runs :: "nat \<Rightarrow> wstatus"
  home :: "string option"
  cwd :: "nat \<Rightarrow> string"

text \<open>
  The world threaded through a run: the events so far, the number of answered system calls,
  the processes that have ended with their wait status, and whether any process has run
  into undefined behaviour. The variables with static storage duration are per process
  (\<^verbatim>\<open>fork\<close> copies them): \<open>proc\<close> holds them next to the process id. An entry of
  \<^verbatim>\<open>path\<close> is a string together with the size in bytes of the block \<^verbatim>\<open>getline\<close> allocated
  for it.
\<close>

record world =
  trace :: "event list"
  tick :: nat
  ended :: "(nat \<times> wstatus) list"
  faulted :: bool

record proc =
  pid :: nat
  path :: "(string \<times> nat) list"
  path_flag :: bool
  verbose_flag :: bool
  saved_stdout :: fd
  stdout_flag :: bool

text \<open>
  After \<^verbatim>\<open>fork\<close> both processes run the same code, and each of them returns through the
  same stack of callers. A handler therefore takes its continuation \<open>k\<close>: what the calling
  process does with the handler's return value, up to the end of that process. A forked
  child gets the same \<open>k\<close> as its parent. The parent waits for the child right after the
  fork, so the child's events are placed before the parent's \<^verbatim>\<open>wait\<close>.
\<close>

type_synonym cont = "int \<Rightarrow> proc \<Rightarrow> world \<Rightarrow> world"

subsection \<open>Events, system calls and output\<close>

definition emit :: "event \<Rightarrow> world \<Rightarrow> world" where
  "emit e w = w\<lparr>trace := trace w @ [e]\<rparr>"

definition sys :: "os \<Rightarrow> nat \<Rightarrow> call \<Rightarrow> world \<Rightarrow> errno option \<times> world" where
  "sys os i c w =
     (fails os (tick w), w\<lparr>trace := trace w @ [Sys i c (fails os (tick w))], tick := Suc (tick w)\<rparr>)"

definition finish :: "nat \<Rightarrow> wstatus \<Rightarrow> world \<Rightarrow> world" where
  "finish i st w = w\<lparr>ended := (i, st) # ended w\<rparr>"

definition exit_process :: "nat \<Rightarrow> nat \<Rightarrow> world \<Rightarrow> world" where
  "exit_process i code w = finish i (Exited code) (emit (Exit i code) w)"

text \<open>
  Undefined behaviour ends the model of a process: the event is recorded, the run is
  flagged, and the process counts as killed by \<^verbatim>\<open>SIGSEGV\<close>. What the C program does from
  there on is not modelled.
\<close>

definition fault :: "nat \<Rightarrow> fault \<Rightarrow> world \<Rightarrow> world" where
  "fault i f w = finish i (Signaled SIGSEGV) ((emit (Undefined i f) w)\<lparr>faulted := True\<rparr>)"

definition printf :: "proc \<Rightarrow> string \<Rightarrow> string option list \<Rightarrow> world \<Rightarrow> world" where
  "printf p fmt args w = emit (Printf (pid p) fmt args) w"

definition vprintf :: "proc \<Rightarrow> string \<Rightarrow> string option list \<Rightarrow> world \<Rightarrow> world" where
  "vprintf p fmt args w = (if verbose_flag p then printf p fmt args w else w)"

definition vdprintf :: "proc \<Rightarrow> string \<Rightarrow> string option list \<Rightarrow> world \<Rightarrow> world" where
  "vdprintf p fmt args w =
     (if verbose_flag p then emit (Dprintf (pid p) (saved_stdout p) fmt args) w else w)"

definition perror :: "proc \<Rightarrow> string \<Rightarrow> world \<Rightarrow> world" where
  "perror p msg w = emit (Perror (pid p) msg) w"

definition arg0 :: "string list \<Rightarrow> string option" where
  "arg0 cmd = (case cmd of [] \<Rightarrow> None | c # _ \<Rightarrow> Some c)"

definition close_or_perror :: "os \<Rightarrow> proc \<Rightarrow> fd \<Rightarrow> world \<Rightarrow> world" where
  "close_or_perror os p d w =
     (case sys os (pid p) (Close d) w of
        (Some e, w1) \<Rightarrow> perror p ''Error closing file descriptor.'' w1
      | (None, w1) \<Rightarrow> w1)"

subsection \<open>Launcher\<close>

text \<open>
  \<^verbatim>\<open>exec\<close>, with both resolution modes. The result is \<open>None\<close> when the call does not
  return (the image was replaced, or the process ran into undefined behaviour), and
  \<open>Some r\<close> when it returns \<open>r\<close>. \<^verbatim>\<open>execvp\<close> returns only on failure, and then \<open>-1\<close>, so
  the body of the loop over \<^verbatim>\<open>path\<close> either replaces the image or returns: a second
  iteration is unreachable and the loop is a case distinction on \<^verbatim>\<open>path[0]\<close>.
  \<^verbatim>\<open>strcat(curr_path, cmd[0])\<close> appends in place, in the global array, and overflows the
  block when it has no room. \<^verbatim>\<open>execvp(NULL, ...)\<close> and \<^verbatim>\<open>strcat(..., NULL)\<close> read through
  the NULL pointer. The block \<^verbatim>\<open>if(verbose_flag) if(stdout_flag) ...\<close> occurs before the
  call and again inside the loop.
\<close>

definition close_saved :: "os \<Rightarrow> proc \<Rightarrow> world \<Rightarrow> proc \<times> world" where
  "close_saved os p w =
     (if verbose_flag p \<and> stdout_flag p
      then (p\<lparr>stdout_flag := False\<rparr>, snd (sys os (pid p) (Close (saved_stdout p)) w))
      else (p, w))"

definition exec :: "os \<Rightarrow> string list \<Rightarrow> proc \<Rightarrow> world \<Rightarrow> int option \<times> proc \<times> world" where
  "exec os cmd p w =
     (if \<not> path_flag p then
        (case close_saved os p w of (p1, w1) \<Rightarrow>
           (case cmd of
              [] \<Rightarrow> (None, p1, fault (pid p1) NullPointer w1)
            | c0 # _ \<Rightarrow>
                (case sys os (pid p1) (Execvp c0 cmd) w1 of
                   (None, w2) \<Rightarrow> (None, p1, finish (pid p1) (runs os (tick w1)) w2)
                 | (Some e, w2) \<Rightarrow>
                     (Some (- 1), p1,
                      vprintf p1 ''%s is not a valid command or program.\<newline>\<newline>'' [Some c0]
                        (if e \<noteq> ENOENT then perror p1 ''Error executing program.'' w2 else w2)))))
      else
        (case close_saved os p w of (p1, w1) \<Rightarrow>
           (case path p1 of
              [] \<Rightarrow> (Some (- 1), p1, emit (Stderr (pid p1) ''Error:  Invalid command.\<newline>'') w1)
            | (curr_path, room) # rest \<Rightarrow>
                (case cmd of
                   [] \<Rightarrow> (None, p1, fault (pid p1) NullPointer w1)
                 | c0 # _ \<Rightarrow>
                     if room < length curr_path + length c0 + 1
                     then (None, p1, fault (pid p1) HeapOverflow w1)
                     else
                       (case close_saved os (p1\<lparr>path := (curr_path @ c0, room) # rest\<rparr>) w1 of
                          (p2, w2) \<Rightarrow>
                            (case sys os (pid p2) (Execvp (curr_path @ c0) cmd) w2 of
                               (None, w3) \<Rightarrow> (None, p2, finish (pid p2) (runs os (tick w2)) w3)
                             | (Some e, w3) \<Rightarrow>
                                 (Some (- 1), p2, perror p2 ''Error executing program.'' w3)))))))"

text \<open>The handlers' \<^verbatim>\<open>exec(cmd); return -1;\<close>.\<close>

definition launch :: "os \<Rightarrow> string list \<Rightarrow> cont \<Rightarrow> proc \<Rightarrow> world \<Rightarrow> world" where
  "launch os cmd k p w =
     (case exec os cmd p w of
        (None, p1, w1) \<Rightarrow> w1
      | (Some r, p1, w1) \<Rightarrow> k (- 1) p1 w1)"

subsection \<open>Redirection handlers\<close>

text \<open>
  \<^verbatim>\<open>overwrite_handle\<close> and \<^verbatim>\<open>append_handle\<close> are the same code up to the \<^verbatim>\<open>open\<close> flag and
  two messages; \<open>redirect_handle\<close> is that code, and \<open>redirect_child\<close> its child branch.
  \<^verbatim>\<open>open(NULL, ...)\<close> (an empty tail) fails with \<^verbatim>\<open>EFAULT\<close>.
\<close>

definition save_stdout :: "os \<Rightarrow> proc \<Rightarrow> world \<Rightarrow> (proc \<times> world) option \<times> world" where
  "save_stdout os p w =
     (if verbose_flag p \<and> \<not> stdout_flag p
      then (case sys os (pid p) (Dup STDOUT_FILENO (DupFd (tick w))) w of
              (Some e, w1) \<Rightarrow> (None, perror p ''Error duplicating stdout file descriptor.'' w1)
            | (None, w1) \<Rightarrow>
                (Some (p\<lparr>saved_stdout := DupFd (tick w), stdout_flag := True\<rparr>, w1), w1))
      else (Some (p, w), w))"


definition sys_open :: "os \<Rightarrow> nat \<Rightarrow> string option \<Rightarrow> open_flags \<Rightarrow> world \<Rightarrow> errno option \<times> world" where
  "sys_open os i name flags w =
     (case name of
        None \<Rightarrow>
          (Some EFAULT,
           w\<lparr>trace := trace w @ [Sys i (Open None flags (FileFd (tick w))) (Some EFAULT)],
             tick := Suc (tick w)\<rparr>)
      | Some f \<Rightarrow> sys os i (Open (Some f) flags (FileFd (tick w))) w)"

definition redirect_child ::
  "os \<Rightarrow> open_flags \<Rightarrow> string \<Rightarrow> string list \<Rightarrow> string list \<Rightarrow> cont \<Rightarrow> proc \<Rightarrow> world \<Rightarrow> world" where
  "redirect_child os flags opening head tail k p w =
     (let w0 = vprintf p ''  Child:\<newline>'' [] w in
      case sys_open os (pid p) (arg0 tail) flags w0 of
        (Some e, w1) \<Rightarrow> k (- 1) p (perror p ''Error opening file.'' w1)
      | (None, w1) \<Rightarrow>
          (case save_stdout os p (vprintf p opening [arg0 tail] w1) of
             (None, w2) \<Rightarrow> k (- 1) p w2
           | (Some (p1, _), w2) \<Rightarrow>
               (case sys os (pid p1) (Dup2 (FileFd (tick w0)) STDOUT_FILENO) w2 of
                  (Some e, w3) \<Rightarrow> k (- 1) p1 (perror p1 ''Error duplicating file descriptor.'' w3)
                | (None, w3) \<Rightarrow>
                    (case sys os (pid p1) (Close (FileFd (tick w0)))
                            (vdprintf p1 ''    Duplicating the file descriptor for file %s as stdout.\<newline>''
                               [arg0 tail] w3) of
                       (Some e, w4) \<Rightarrow> k (- 1) p1 (perror p1 ''Error closing a file descriptor.'' w4)
                     | (None, w4) \<Rightarrow>
                         launch os head k p1
                           (vdprintf p1 ''    Executing the head command:  %s\<newline>'' [arg0 head]
                              (vdprintf p1 ''    Closing output file descriptor.\<newline>'' [] w4))))))"

definition redirect_handle ::
  "os \<Rightarrow> open_flags \<Rightarrow> string \<Rightarrow> string \<Rightarrow> string list \<Rightarrow> string list \<Rightarrow> cont \<Rightarrow> proc \<Rightarrow> world \<Rightarrow> world" where
  "redirect_handle os flags banner opening head tail k p w =
     (let w0 = vprintf p banner [arg0 head, arg0 tail] w in
      case sys os (pid p) (Fork (Suc (tick w0))) w0 of
        (Some e, w1) \<Rightarrow> k (- 1) p (perror p ''Error forking a process.'' w1)
      | (None, w1) \<Rightarrow>
          (let w2 = vprintf p ''  Creating a child process for the command:  %s\<newline>'' [arg0 head] w1;
               w3 = redirect_child os flags opening head tail k (p\<lparr>pid := Suc (tick w0)\<rparr>) w2
           in case sys os (pid p) (Waitpid (Suc (tick w0))) w3 of
                (Some e, w4) \<Rightarrow> k (- 1) p (perror p ''Error waiting for a process.'' w4)
              | (None, w4) \<Rightarrow>
                  k 0 p (vprintf p ''  Parent:\<newline>    Waiting for child process to terminate.\<newline>'' [] w4)))"

definition overwrite_handle :: "os \<Rightarrow> string list \<Rightarrow> string list \<Rightarrow> cont \<Rightarrow> proc \<Rightarrow> world \<Rightarrow> world" where
  "overwrite_handle os head tail k p w =
     redirect_handle os O_TRUNC ''  Overwriting the output of %s onto %s\<newline>''
       ''    Opening %s for writing (overwrite).\<newline>'' head tail k p w"

definition append_handle :: "os \<Rightarrow> string list \<Rightarrow> string list \<Rightarrow> cont \<Rightarrow> proc \<Rightarrow> world \<Rightarrow> world" where
  "append_handle os head tail k p w =
     redirect_handle os O_APPEND ''  Appending the output of %s onto the end of %s\<newline>''
       ''    Opening %s for writing (append).\<newline>'' head tail k p w"

subsection \<open>Pipe handler and the dispatch on the operator\<close>

text \<open>
  \<^verbatim>\<open>pipe_handle\<close> up to the point where the tail is examined: \<open>pipe_child\<close> is the child
  branch, \<open>pipe_parent\<close> the parent's \<^verbatim>\<open>waitpid\<close>, \<^verbatim>\<open>dup2\<close> and two \<^verbatim>\<open>close\<close> calls, and
  \<open>pipe_setup\<close> the whole of it. The result is \<open>Inl\<close> when the parent has returned \<open>-1\<close>
  on an error path, and \<open>Inr\<close> when it is ready to run the tail.
\<close>

definition pipe_child :: "os \<Rightarrow> fd \<Rightarrow> fd \<Rightarrow> string list \<Rightarrow> cont \<Rightarrow> proc \<Rightarrow> world \<Rightarrow> world" where
  "pipe_child os rd wr head k p w =
     (case sys os (pid p) (Close rd) (vprintf p ''  Child:\<newline>'' [] w) of
        (Some e, w1) \<Rightarrow>
          k (- 1) p (close_or_perror os p wr (perror p ''Error closing file descriptor.'' w1))
      | (None, w1) \<Rightarrow>
          (case save_stdout os p (vprintf p ''    Closing the read end of the pipe.\<newline>'' [] w1) of
             (None, w2) \<Rightarrow> k (- 1) p (close_or_perror os p wr w2)
           | (Some (p1, _), w2) \<Rightarrow>
               (case sys os (pid p1) (Dup2 wr STDOUT_FILENO) w2 of
                  (Some e, w3) \<Rightarrow>
                    k (- 1) p1 (close_or_perror os p1 wr (perror p1 ''Error duplicating file descriptor.'' w3))
                | (None, w3) \<Rightarrow>
                    (case sys os (pid p1) (Close wr)
                            (vdprintf p1 ''    Executing the head command:  %s\<newline>'' [arg0 head]
                               (vdprintf p1
                                  ''    Duplicating the file descriptor of the write end of the pipe as stdout.\<newline>''
                                  [] w3)) of
                       (Some e, w4) \<Rightarrow> k (- 1) p1 (perror p1 ''Error closing file descriptor.'' w4)
                     | (None, w4) \<Rightarrow> launch os head k p1 w4))))"

definition pipe_parent :: "os \<Rightarrow> fd \<Rightarrow> fd \<Rightarrow> nat \<Rightarrow> cont \<Rightarrow> proc \<Rightarrow> world \<Rightarrow> world + world" where
  "pipe_parent os rd wr child k p w =
     (case sys os (pid p) (Waitpid child) w of
        (Some e, w1) \<Rightarrow>
          Inl (k (- 1) p (close_or_perror os p wr (close_or_perror os p rd
                 (perror p ''Error waiting for child process.'' w1))))
      | (None, w1) \<Rightarrow>
          (case sys os (pid p) (Dup2 rd STDIN_FILENO)
                  (vprintf p ''  Parent:\<newline>    Waiting for child process to terminate.\<newline>'' [] w1) of
             (Some e, w2) \<Rightarrow>
               Inl (k (- 1) p (close_or_perror os p wr (close_or_perror os p rd
                      (perror p ''Error duplicating file descriptor.'' w2))))
           | (None, w2) \<Rightarrow>
               (case sys os (pid p) (Close rd)
                       (vprintf p ''    Duplicating the file descriptor of the read end of the pipe as stdin.\<newline>''
                          [] w2) of
                  (Some e, w3) \<Rightarrow>
                    Inl (k (- 1) p (close_or_perror os p wr (perror p ''Error closing file descriptor.'' w3)))
                | (None, w3) \<Rightarrow>
                    (case sys os (pid p) (Close wr) w3 of
                       (Some e, w4) \<Rightarrow> Inl (k (- 1) p (perror p ''Error closing file descriptor.'' w4))
                     | (None, w4) \<Rightarrow>
                         Inr (vprintf p ''    Closing both ends of the pipe.\<newline>'' [] w4)))))"

definition pipe_setup :: "os \<Rightarrow> string list \<Rightarrow> string list \<Rightarrow> cont \<Rightarrow> proc \<Rightarrow> world \<Rightarrow> world + world" where
  "pipe_setup os head tail k p w =
     (let w0 = vprintf p ''  Piping:  %s --> %s\<newline>'' [arg0 head, arg0 tail] w;
          rd = PipeRead (tick w0); wr = PipeWrite (tick w0)
      in case sys os (pid p) (Pipe rd wr) w0 of
           (Some e, w1) \<Rightarrow> Inl (k (- 1) p (perror p ''Error creating pipe.'' w1))
         | (None, w1) \<Rightarrow>
             (let w2 = vprintf p ''  Creating a pipe for interprocess communication.\<newline>'' [] w1;
                  child = Suc (tick w2)
              in case sys os (pid p) (Fork child) w2 of
                   (Some e, w3) \<Rightarrow>
                     Inl (k (- 1) p (close_or_perror os p wr (close_or_perror os p rd
                            (perror p ''Error forking a process.'' w3))))
                 | (None, w3) \<Rightarrow>
                     pipe_parent os rd wr child k p
                       (pipe_child os rd wr head k (p\<lparr>pid := child\<rparr>)
                          (vprintf p ''  Creating a child process for the command:  %s\<newline>''
                             [arg0 head] w3))))"

text \<open>
  Whenever the split returns, it returns the tokens in front of the first operator and the
  tokens behind it; the tail is shorter than the vector, which is what makes the recursion
  of the handlers terminate.
\<close>

lemma head_loop_Inr:
  "head_loop cmd head capacity head_size = Inr (h, rest, c, s) \<Longrightarrow>
     \<exists>pre op post. cmd = pre @ op # post \<and> (\<forall>t \<in> set pre. \<not> is_operator t) \<and> is_operator op
        \<and> h = head @ pre \<and> rest = op # post"
proof (induction cmd arbitrary: head capacity head_size)
  case Nil
  then show ?case by simp
next
  case (Cons c0 cmd)
  show ?case
  proof (cases "is_operator c0")
    case True
    with Cons.prems show ?thesis
      by (intro exI [of _ "[]"] exI [of _ c0] exI [of _ cmd]) (auto simp: is_operator_def)
  next
    case False
    with Cons.prems obtain capacity' head_size' where
      "head_loop cmd (head @ [c0]) capacity' head_size' = Inr (h, rest, c, s)"
      by (auto simp: is_operator_def Let_def split: if_splits)
    from Cons.IH [OF this] obtain pre op post where
      "cmd = pre @ op # post" "\<forall>t \<in> set pre. \<not> is_operator t" "is_operator op"
      "h = (head @ [c0]) @ pre" "rest = op # post"
      by blast
    with False show ?thesis
      by (intro exI [of _ "c0 # pre"] exI [of _ op] exI [of _ post]) simp
  qed
qed

lemma tail_loop_Inr:
  "tail_loop cmd tail capacity tail_size = Inr t \<Longrightarrow> t = tail @ cmd"
proof (induction cmd arbitrary: tail capacity tail_size)
  case Nil
  then show ?case by (simp split: if_splits)
next
  case (Cons c cmd)
  from Cons.prems obtain capacity' tail_size' where
    "tail_loop cmd (tail @ [c]) capacity' tail_size' = Inr t"
    by (auto simp: Let_def split: if_splits)
  from Cons.IH [OF this] show ?case by simp
qed

lemma split_command_Inr:
  assumes "split_command cmd num_cmd = Inr (head, tail)"
  shows "\<exists>op. is_operator op \<and> cmd = head @ op # tail \<and> (\<forall>t \<in> set head. \<not> is_operator t)"
proof -
  from assms obtain rest c s t where
    h: "head_loop cmd [] (if num_cmd > 0 then num_cmd div 2 + 1 else 3)
          (if num_cmd > 0 then num_cmd div 2 + 1 else 3) = Inr (head, rest, c, s)"
    and t: "tail_loop (drop 1 rest) [] c (if num_cmd > 0 then num_cmd div 2 + 1 else 3) = Inr tail"
    by (auto simp: split_command_def Let_def split: sum.splits if_splits)
  from head_loop_Inr [OF h] obtain pre op post where
    p: "cmd = pre @ op # post" "\<forall>t \<in> set pre. \<not> is_operator t" "is_operator op"
      "head = pre" "rest = op # post"
    by auto
  from tail_loop_Inr [OF t] p have "tail = post" by simp
  with p show ?thesis by blast
qed

lemma split_command_shorter:
  "split_command cmd num_cmd = Inr (head, tail) \<Longrightarrow> length tail < length cmd"
  by (drule split_command_Inr) auto

text \<open>
  \<^verbatim>\<open>special_command\<close> splits and calls the handler for \<^verbatim>\<open>type\<close>; \<^verbatim>\<open>pipe_handle\<close> calls
  \<^verbatim>\<open>special_command(tail, 0, tail_type)\<close> when the tail holds a further operator and
  returns \<open>-1\<close> or \<open>0\<close> from its result, and otherwise launches the tail.
\<close>

function special_command :: "os \<Rightarrow> string list \<Rightarrow> nat \<Rightarrow> int \<Rightarrow> cont \<Rightarrow> proc \<Rightarrow> world \<Rightarrow> world"
  and pipe_handle :: "os \<Rightarrow> string list \<Rightarrow> string list \<Rightarrow> cont \<Rightarrow> proc \<Rightarrow> world \<Rightarrow> world" where
  "special_command os cmd num_cmd type k p w =
     (case split_command cmd num_cmd of
        Inl f \<Rightarrow> fault (pid p) f w
      | Inr (head, tail) \<Rightarrow>
          if type = 1 then append_handle os head tail k p w
          else if type = 2 then overwrite_handle os head tail k p w
          else if type = 3 then pipe_handle os head tail k p w
          else k (- 1) p (emit (Stderr (pid p) ''Error:  Should not be reached!'') w))"
| "pipe_handle os head tail k p w =
     (case pipe_setup os head tail k p w of
        Inl w1 \<Rightarrow> w1
      | Inr w1 \<Rightarrow>
          if is_special_feature tail > 0
          then special_command os tail 0 (is_special_feature tail)
                 (\<lambda>r. k (if r = - 1 then - 1 else 0)) p
                 (vprintf p ''    Tail command consists of special feature.\<newline>'' [] w1)
          else launch os tail k p
                 (vprintf p ''Program Output:\<newline>\<newline>'' []
                    (vprintf p ''    Executing the tail command:  %s\<newline>\<newline>'' [arg0 tail] w1)))"
  by pat_completeness auto
termination
  by (relation "measure (\<lambda>x. case x of
          Inl (os, cmd, num_cmd, type, k, p, w) \<Rightarrow> 2 * length cmd + 1
        | Inr (os, head, tail, k, p, w) \<Rightarrow> 2 * length tail + 2)")
     (auto dest: split_command_shorter)

declare special_command.simps [simp del] pipe_handle.simps [simp del]


subsection \<open>Dispatcher\<close>

text \<open>
  \<^verbatim>\<open>exec_dispatch\<close>: \<open>dispatch_child\<close> is the child branch, whose continuation
  \<open>dispatch_exit\<close> is the \<^verbatim>\<open>_Exit\<close> at its end; \<open>dispatch_parent\<close> is the parent branch with
  the translation of the wait status.
\<close>

definition dispatch_exit :: cont where
  "dispatch_exit status p w =
     exit_process (pid p) (if status \<noteq> - 1 then EXIT_SUCCESS else EXIT_FAILURE) w"

definition dispatch_child :: "os \<Rightarrow> string list \<Rightarrow> nat \<Rightarrow> proc \<Rightarrow> world \<Rightarrow> world" where
  "dispatch_child os cmd num_cmd p w =
     (let w0 = vprintf p ''Child:\<newline>'' [] w in
      if is_special_feature cmd > 0
      then special_command os cmd num_cmd (is_special_feature cmd) dispatch_exit p w0
      else (case exec os cmd p
                   (vprintf p ''Program Output:\<newline>\<newline>'' []
                      (vprintf p ''  Executing %s...\<newline>\<newline>'' [arg0 cmd] w0)) of
              (None, p1, w1) \<Rightarrow> w1
            | (Some status, p1, w1) \<Rightarrow> dispatch_exit status p1 w1))"

definition dispatch_parent :: "os \<Rightarrow> nat \<Rightarrow> proc \<Rightarrow> world \<Rightarrow> int \<times> world" where
  "dispatch_parent os child p w =
     (case sys os (pid p) Wait
             (vprintf p ''Parent:\<newline>  Waiting for child process to terminate.\<newline>'' [] w) of
        (Some e, w1) \<Rightarrow> (- 1, perror p ''Error waiting for a process.'' w1)
      | (None, w1) \<Rightarrow>
          (case map_of (ended w1) child of
             None \<Rightarrow> (- 1, w1)
           | Some (Signaled s) \<Rightarrow>
               if s = SIGINT \<or> s = SIGQUIT
               then (- 1, printf p ''Process executing a command was killed by the user.\<newline>'' [] w1)
               else (- 1, w1)
           | Some (Exited code) \<Rightarrow> (if code = EXIT_SUCCESS then int EXIT_SUCCESS else - 1, w1)))"

definition exec_dispatch :: "os \<Rightarrow> string list \<Rightarrow> nat \<Rightarrow> proc \<Rightarrow> world \<Rightarrow> int \<times> world" where
  "exec_dispatch os cmd num_cmd p w =
     (case sys os (pid p) (Fork (Suc (tick w))) w of
        (Some e, w1) \<Rightarrow> (- 1, perror p ''Error forking a process.'' w1)
      | (None, w1) \<Rightarrow>
          dispatch_parent os (Suc (tick w)) p
            (dispatch_child os cmd num_cmd (p\<lparr>pid := Suc (tick w)\<rparr>)
               (vprintf p ''Creating a child process to run the command: %s\<newline>'' [arg0 cmd] w1)))"

subsection \<open>Built-in commands and the driver\<close>

definition pwd_handle :: "os \<Rightarrow> string list \<Rightarrow> nat \<Rightarrow> proc \<Rightarrow> world \<Rightarrow> int \<times> world" where
  "pwd_handle os cmd num_cmd p w =
     (let w0 = vprintf p ''Getting current working directory...\<newline>'' [] w in
      if num_cmd \<noteq> 1 \<and> is_special_feature cmd = 0
      then (- 1, printf p ''Error:  pwd should not have any arguments.\<newline>'' [] w0)
      else (case sys os (pid p) Getcwd w0 of
              (Some e, w1) \<Rightarrow>
                (- 1, perror p ''Error:  Getting the current working directory failed.'' w1)
            | (None, w1) \<Rightarrow>
                (0, printf p ''%s\<newline>'' [Some (cwd os (tick w0))]
                      (vprintf p ''Program Output:\<newline>\<newline>'' []
                         (vprintf p ''Obtained current working directory via call to getcwd.\<newline>'' [] w1)))))"

definition cd_handle :: "os \<Rightarrow> string list \<Rightarrow> nat \<Rightarrow> proc \<Rightarrow> world \<Rightarrow> int \<times> world" where
  "cd_handle os cmd num_cmd p w =
     (let w0 = vprintf p ''Changing current directory...\<newline>'' [] w in
      if num_cmd = 1 then
        (case home os of
           None \<Rightarrow>
             (- 1, printf p ''Error:  There is no home environment variable defined in your environment.'' [] w0)
         | Some h \<Rightarrow>
             (case sys os (pid p) (Chdir (Some h))
                     (vprintf p ''Obtained home environment variable via call to getenv.\<newline>'' [] w0) of
                (Some e, w1) \<Rightarrow> (- 1, perror p ''Error:  Unable to change to your home directory.'' w1)
              | (None, w1) \<Rightarrow>
                  (0, vprintf p ''Changed current directory to your home directory: %s\<newline>'' [Some h] w1)))
      else if num_cmd = 2 then
        (case sys os (pid p) (Chdir (arg0 (drop 1 cmd))) w0 of
           (Some e, w1) \<Rightarrow> (- 1, perror p ''Error:  Changing directory failed.\<newline>'' w1)
         | (None, w1) \<Rightarrow>
             if verbose_flag p then
               (case sys os (pid p) Getcwd w1 of
                  (Some e, w2) \<Rightarrow>
                    (- 1, perror p ''Error:  Getting the current working directory failed.'' w2)
                | (None, w2) \<Rightarrow>
                    (0, printf p ''Changed current directory to: %s\<newline>'' [Some (cwd os (tick w1))] w2))
             else (0, w1))
      else (- 1, printf p ''Error:  Too many arguments.\<newline>Usage: cd [dir]\<newline>'' [] w0))"

text \<open>
  One iteration of the loop of \<^verbatim>\<open>driver\<close> ends in \<^verbatim>\<open>continue\<close> (or the end of the body),
  with \<^verbatim>\<open>exit_flag\<close> set, or by leaving \<^verbatim>\<open>driver\<close>; each carries the shell's variables,
  \<^verbatim>\<open>command_status\<close> and the world. Standard input is the list of lines \<^verbatim>\<open>getline\<close>
  returns, followed by a failing \<^verbatim>\<open>getline\<close>, at end of file when \<open>feof\<close> holds.
\<close>

datatype step = Continue proc int world | Leave proc int world | Abort proc world

definition delim :: string where
  "delim = [CHR '' '', CHR 0x09, CHR 0x0A]"

definition run_command :: "os \<Rightarrow> string list \<Rightarrow> nat \<Rightarrow> proc \<Rightarrow> world \<Rightarrow> step" where
  "run_command os cmds num_cmds p w =
     (let w0 = vprintf p ''\<newline>'' [] w in
      if arg0 cmds = Some ''exit'' then Leave p 0 w0
      else
        (case (if arg0 cmds = Some ''verbose'' then (p\<lparr>verbose_flag := True\<rparr>, 0, w0)
               else if arg0 cmds = Some ''brief'' then (p\<lparr>verbose_flag := False\<rparr>, 0, w0)
               else if arg0 cmds = Some ''pwd'' then
                 (case pwd_handle os cmds num_cmds p w0 of (s, w1) \<Rightarrow> (p, s, w1))
               else if arg0 cmds = Some ''cd'' then
                 (case cd_handle os cmds num_cmds p w0 of (s, w1) \<Rightarrow> (p, s, w1))
               else (case exec_dispatch os cmds num_cmds p w0 of (s, w1) \<Rightarrow> (p, s, w1))) of
           (p1, command_status, w1) \<Rightarrow>
             Continue p1 command_status
               (if verbose_flag p1
                then printf p1 (if command_status = - 1 then ''Previous command failed.\<newline>\<newline>''
                                else ''Previous command was successful.\<newline>\<newline>'') []
                       (printf p1 ''\<newline>'' [] w1)
                else w1)))"

definition driver_line :: "os \<Rightarrow> string \<Rightarrow> proc \<Rightarrow> world \<Rightarrow> step" where
  "driver_line os input p w =
     (case tokenizer input delim (length input) of
        Inl f \<Rightarrow> Abort p (fault (pid p) f w)
      | Inr (None, num_cmds) \<Rightarrow> Continue p 0 w
      | Inr (Some [], num_cmds) \<Rightarrow> Continue p 0 w
      | Inr (Some (c # cs), num_cmds) \<Rightarrow> run_command os (c # cs) num_cmds p w)"

definition leave_loop :: "proc \<Rightarrow> world \<Rightarrow> int \<times> proc \<times> world" where
  "leave_loop p w = (0, p, printf p ''Exiting now.  Thanks for using tinysh!\<newline>'' [] w)"

definition getline_failed :: "bool \<Rightarrow> proc \<Rightarrow> world \<Rightarrow> int \<times> proc \<times> world" where
  "getline_failed feof p w =
     (if \<not> feof then (- 1, p, perror p ''Error reading user commands from standard input.'' w)
      else leave_loop p
             (vprintf p
                ''\<newline>Encountered EOF, it looks like you pressed CTRL + D.\<newline>Exiting now...\<newline>\<newline>''
                [] w))"

fun driver_loop :: "os \<Rightarrow> string list \<Rightarrow> bool \<Rightarrow> proc \<Rightarrow> world \<Rightarrow> int \<times> proc \<times> world" where
  "driver_loop os [] feof p w = getline_failed feof p (printf p ''tinysh> '' [] w)"
| "driver_loop os (input # rest) feof p w =
     (case driver_line os input p (printf p ''tinysh> '' [] w) of
        Continue p1 command_status w1 \<Rightarrow> driver_loop os rest feof p1 w1
      | Leave p1 command_status w1 \<Rightarrow> leave_loop p1 w1
      | Abort p1 w1 \<Rightarrow> (- 1, p1, w1))"

definition driver :: "os \<Rightarrow> string list \<Rightarrow> bool \<Rightarrow> proc \<Rightarrow> world \<Rightarrow> int \<times> proc \<times> world" where
  "driver os lines feof p w =
     driver_loop os lines feof p
       (printf p (if \<not> path_flag p then ''Using the path defined by your environment.\<newline>''
                  else ''Using the path defined in the provided path file.\<newline>'') [] w)"

section \<open>Observations on a run\<close>

text \<open>
  What the properties below read off a trace: the processes created by successful
  \<^verbatim>\<open>fork\<close> calls, the pipes created, the successful image replacements with the process
  that performed them, and the system calls of one process in order.
\<close>

fun forked :: "event \<Rightarrow> nat list" where
  "forked (Sys i (Fork c) None) = [c]"
| "forked e = []"

fun piped :: "event \<Rightarrow> (fd \<times> fd) list" where
  "piped (Sys i (Pipe rd wr) None) = [(rd, wr)]"
| "piped e = []"

fun launched :: "event \<Rightarrow> (nat \<times> string list) list" where
  "launched (Sys i (Execvp f cmd) None) = [(i, cmd)]"
| "launched e = []"

fun called :: "nat \<Rightarrow> event \<Rightarrow> call list" where
  "called i (Sys j c r) = (if i = j then [c] else [])"
| "called i e = []"

definition forks :: "event list \<Rightarrow> nat list" where
  "forks tr = concat (map forked tr)"

definition pipes :: "event list \<Rightarrow> (fd \<times> fd) list" where
  "pipes tr = concat (map piped tr)"

definition execs :: "event list \<Rightarrow> (nat \<times> string list) list" where
  "execs tr = concat (map launched tr)"

definition calls_of :: "nat \<Rightarrow> event list \<Rightarrow> call list" where
  "calls_of i tr = concat (map (called i) tr)"



definition can_launch :: "proc \<Rightarrow> string list \<Rightarrow> bool" where
  "can_launch p cmd \<longleftrightarrow>
     cmd \<noteq> [] \<and>
     (path_flag p \<longrightarrow>
        (case path p of [] \<Rightarrow> False
         | (d, room) # rest \<Rightarrow> length d + length (hd cmd) + 1 \<le> room))"



text \<open>
  The descriptor table of a process, replayed from the trace: a table maps a descriptor to
  the descriptor that first named the open file behind it. \<^verbatim>\<open>fork\<close> copies the table,
  \<^verbatim>\<open>pipe\<close> and \<^verbatim>\<open>open\<close> add entries, \<^verbatim>\<open>dup\<close> and \<^verbatim>\<open>dup2\<close> make the new descriptor name the
  old one's file, \<^verbatim>\<open>close\<close> removes the entry. \<open>descriptors_at_exec\<close> is the table of a
  process at its successful \<^verbatim>\<open>execvp\<close>; \<open>terminal\<close> is the table the shell starts with.
\<close>

type_synonym fd_table = "(fd \<times> fd) list"

definition install :: "fd \<Rightarrow> fd option \<Rightarrow> fd_table \<Rightarrow> fd_table" where
  "install d f tab =
     (case f of None \<Rightarrow> filter (\<lambda>(x, y). x \<noteq> d) tab
      | Some y \<Rightarrow> (d, y) # filter (\<lambda>(x, y). x \<noteq> d) tab)"

fun replay :: "event \<Rightarrow> (nat \<Rightarrow> fd_table) \<Rightarrow> (nat \<Rightarrow> fd_table)" where
  "replay (Sys i (Fork c) None) tabs = tabs(c := tabs i)"
| "replay (Sys i (Pipe rd wr) None) tabs = tabs(i := install wr (Some wr) (install rd (Some rd) (tabs i)))"
| "replay (Sys i (Open f flags d) None) tabs = tabs(i := install d (Some d) (tabs i))"
| "replay (Sys i (Dup old new) None) tabs = tabs(i := install new (map_of (tabs i) old) (tabs i))"
| "replay (Sys i (Dup2 old new) None) tabs = tabs(i := install new (map_of (tabs i) old) (tabs i))"
| "replay (Sys i (Close d) None) tabs = tabs(i := install d None (tabs i))"
| "replay e tabs = tabs"

fun descriptors_at_exec :: "event list \<Rightarrow> nat \<Rightarrow> (nat \<Rightarrow> fd_table) \<Rightarrow> fd_table option" where
  "descriptors_at_exec [] i tabs = None"
| "descriptors_at_exec (e # tr) i tabs =
     (case e of
        Sys j (Execvp f cmd) None \<Rightarrow>
          if i = j then Some (tabs i) else descriptors_at_exec tr i (replay e tabs)
      | _ \<Rightarrow> descriptors_at_exec tr i (replay e tabs))"

definition terminal :: "nat \<Rightarrow> fd_table" where
  "terminal i = [(STDIN_FILENO, STDIN_FILENO), (STDOUT_FILENO, STDOUT_FILENO)]"


text \<open>
  A process has ended in a world when a wait status is recorded for it. A continuation
  \<open>keeps\<close> the recorded statuses when it never drops one. \<open>settles k i w w'\<close> relates the
  worlds before and after a piece of handler code that process \<open>i\<close> runs with continuation
  \<open>k\<close>: no status has been dropped, and process \<open>i\<close> has ended provided that the
  continuation ends it.
\<close>

definition ends :: "nat \<Rightarrow> world \<Rightarrow> bool" where
  "ends i w \<longleftrightarrow> i \<in> fst ` set (ended w)"

definition keeps :: "cont \<Rightarrow> bool" where
  "keeps k \<longleftrightarrow> (\<forall>r p w. set (ended w) \<subseteq> set (ended (k r p w)))"

definition settles :: "cont \<Rightarrow> nat \<Rightarrow> world \<Rightarrow> world \<Rightarrow> bool" where
  "settles k i w w' \<longleftrightarrow>
     set (ended w) \<subseteq> set (ended w') \<and> ((\<forall>r p v. pid p = i \<longrightarrow> ends i (k r p v)) \<longrightarrow> ends i w')"


subsection \<open>Example environments\<close>

text \<open>
  Oracles and states for the closed instances below: every call succeeds and every program
  exits with status 0; the second call of the run fails with \<^verbatim>\<open>ENOENT\<close>; the shell as
  \<^verbatim>\<open>main\<close> leaves its variables without options, with \<^verbatim>\<open>-v\<close>, and with a path file of
  two directories; a program killed by the interrupt signal, and one that exits with status 1.
\<close>

definition succeeding :: os where
  "succeeding = \<lparr>fails = (\<lambda>t. None), runs = (\<lambda>t. Exited 0), home = None, cwd = (\<lambda>t. [])\<rparr>"

definition shell0 :: proc where
  "shell0 = \<lparr>pid = 0, path = [], path_flag = False, verbose_flag = False,
              saved_stdout = STDIN_FILENO, stdout_flag = False\<rparr>"

definition world0 :: world where
  "world0 = \<lparr>trace = [], tick = 0, ended = [], faulted = False\<rparr>"

definition not_found :: os where
  "not_found = \<lparr>fails = (\<lambda>t. if t = 1 then Some ENOENT else None), runs = (\<lambda>t. Exited 0),
                 home = None, cwd = (\<lambda>t. [])\<rparr>"

definition path_shell :: proc where
  "path_shell = shell0\<lparr>path := [(''/bin/'', 120), (''/usr/bin/'', 120)], path_flag := True\<rparr>"

definition verbose_shell :: proc where
  "verbose_shell = shell0\<lparr>verbose_flag := True\<rparr>"



section \<open>Properties\<close>

lemmas world_defs = emit_def sys_def sys_open_def finish_def exit_process_def fault_def printf_def
  vprintf_def vdprintf_def perror_def arg0_def close_or_perror_def close_saved_def save_stdout_def

lemmas handler_defs = exec_def launch_def redirect_child_def redirect_handle_def overwrite_handle_def
  append_handle_def pipe_child_def pipe_parent_def pipe_setup_def dispatch_exit_def
  dispatch_child_def dispatch_parent_def exec_dispatch_def split_command_def
  special_command.simps pipe_handle.simps

lemmas const_defs = succeeding_def shell0_def world0_def SIGINT_def SIGQUIT_def SIGSEGV_def
  EXIT_SUCCESS_def EXIT_FAILURE_def

lemmas example_defs = const_defs not_found_def path_shell_def verbose_shell_def

subsection \<open>Feature classifier\<close>

lemma is_special_feature_no_operator:
  "list_all (\<lambda>t. \<not> is_operator t) cmd \<Longrightarrow> is_special_feature cmd = 0"
  by (induction cmd) (auto simp: is_operator_def)

lemma is_special_feature_leftmost:
  "list_all (\<lambda>t. \<not> is_operator t) pre \<Longrightarrow> is_operator op
     \<Longrightarrow> is_special_feature (pre @ op # post) = feature_code op"
  by (induction pre) (auto simp: is_operator_def feature_code_def)

text \<open>
  Claim C4. The classifier is a pure function of the vector. It returns 0 (None) when no
  token is \<^verbatim>\<open>">>"\<close>, \<^verbatim>\<open>">"\<close> or \<^verbatim>\<open>"|"\<close>; otherwise it returns the code of the leftmost
  operator token: 1 (Append) for \<^verbatim>\<open>">>"\<close>, 2 (Overwrite) for \<^verbatim>\<open>">"\<close>, 3 (Pipe) for
  \<^verbatim>\<open>"|"\<close>. The three examples of the specification are instances.
\<close>

theorem is_special_feature_classifies:
  "((\<forall>t \<in> set cmd. t \<noteq> ''>>'' \<and> t \<noteq> ''>'' \<and> t \<noteq> ''|'') \<longrightarrow> is_special_feature cmd = 0)
   \<and> ((\<forall>t \<in> set pre. t \<noteq> ''>>'' \<and> t \<noteq> ''>'' \<and> t \<noteq> ''|'') \<longrightarrow>
        is_special_feature (pre @ ''>>'' # post) = 1
        \<and> is_special_feature (pre @ ''>'' # post) = 2
        \<and> is_special_feature (pre @ ''|'' # post) = 3)
   \<and> is_special_feature [''ls'', ''-la''] = 0
   \<and> is_special_feature [''a'', ''|'', ''b''] = 3
   \<and> is_special_feature [''a'', ''>>'', ''f''] = 1"
proof -
  have none: "is_special_feature cmd = 0"
    if "\<forall>t \<in> set cmd. t \<noteq> ''>>'' \<and> t \<noteq> ''>'' \<and> t \<noteq> ''|''"
    using that by (intro is_special_feature_no_operator) (simp add: list_all_iff is_operator_def)
  have left: "is_special_feature (pre @ op # post) = feature_code op"
    if "\<forall>t \<in> set pre. t \<noteq> ''>>'' \<and> t \<noteq> ''>'' \<and> t \<noteq> ''|''" and "is_operator op" for op
    using that by (intro is_special_feature_leftmost) (simp_all add: list_all_iff is_operator_def)
  show ?thesis
    using none left [of "''>>''"] left [of "''>''"] left [of "''|''"]
    by (simp add: is_operator_def feature_code_def)
qed

theorem is_special_feature_classifies_witness:
  "is_special_feature [''echo'', ''hi''] = 0
   \<and> is_special_feature ([''a'', ''b''] @ ''>>'' # [''f'', ''|'', ''c'']) = 1
   \<and> is_special_feature ([''a'', ''b''] @ ''>'' # [''f'', ''|'', ''c'']) = 2
   \<and> is_special_feature ([''a'', ''b''] @ ''|'' # [''f'', ''>'', ''c'']) = 3"
  using is_special_feature_classifies [of "[''echo'', ''hi'']" "[''a'', ''b'']" "[''f'', ''|'', ''c'']"]
    is_special_feature_classifies [of "[]" "[''a'', ''b'']" "[''f'', ''>'', ''c'']"]
  by simp

subsection \<open>Tokenizer\<close>

lemma tokenizer_runs:
  "tokenizer input d n =
     Inr (if maximal_runs (set d) input = [] then None else Some (maximal_runs (set d) input),
          length (maximal_runs (set d) input))"
proof -
  let ?c = "if n > 0 then n div 4 + 1 else 3"
  have "tokenizer_loop d input [] ?c = Inr ([] @ maximal_runs (set d) input)"
    by (rule tokenizer_loop_runs) simp_all
  then show ?thesis by (simp add: tokenizer_def)
qed








subsection \<open>Pipeline splitter\<close>

text \<open>
  Claim C2 at the vector \<^verbatim>\<open>b c d > e f g\<close> with no size hint, as \<^verbatim>\<open>pipe_handle\<close> passes
  the tail of \<^verbatim>\<open>a | b c d > e f g\<close>: the head loop doubles \<^verbatim>\<open>capacity\<close> from 3 to 6, the
  tail block keeps its 3 entries, and \<^verbatim>\<open>tail[3] = NULL\<close> is written past its end.
\<close>

theorem split_command_overflow:
  "split_command [''b'', ''c'', ''d'', ''>'', ''e'', ''f'', ''g''] 0 = Inl HeapOverflow"
  by (simp add: split_command_def Let_def)


text \<open>
  The split is right whenever no block overflows: with the exact length as size hint, as
  the dispatcher passes it, always; with the size hint 0 of the nested calls, exactly when
  the head or the tail has fewer than 3 tokens. The specification's example is an instance.
\<close>

theorem split_command_with_exact_hint:
  "(\<forall>t \<in> set pre. \<not> is_operator t) \<and> is_operator op \<longrightarrow>
     split_command (pre @ op # post) (length (pre @ op # post)) = Inr (pre, post)"
  using split_command_exact by blast

theorem split_command_with_exact_hint_witness:
  "split_command ([''a''] @ ''|'' # [''b'', ''c'']) (length ([''a''] @ ''|'' # [''b'', ''c'']))
     = Inr ([''a''], [''b'', ''c''])"
  using split_command_with_exact_hint [of "[''a'']" "''|''" "[''b'', ''c'']"]
  by (simp add: is_operator_def)

theorem split_command_without_hint:
  "(\<forall>t \<in> set pre. \<not> is_operator t) \<and> is_operator op \<longrightarrow>
     split_command (pre @ op # post) 0 =
       (if length pre < 3 \<or> length post < 3 then Inr (pre, post) else Inl HeapOverflow)"
  using split_command_no_hint by blast

theorem split_command_without_hint_witness:
  "split_command ([''b'', ''c''] @ ''>'' # [''e'', ''f'', ''g'']) 0 = Inr ([''b'', ''c''], [''e'', ''f'', ''g''])"
  using split_command_without_hint [of "[''b'', ''c'']" "''>''" "[''e'', ''f'', ''g'']"]
  by (simp add: is_operator_def)

text \<open>
  Claim C10 on the line \<^verbatim>\<open>| b\<close>, which the driver accepts: the splitter returns an empty
  head, and the child forked by \<^verbatim>\<open>pipe_handle\<close> calls \<^verbatim>\<open>exec\<close> on it, that is
  \<^verbatim>\<open>execvp(NULL, head)\<close>.
\<close>

theorem empty_head_reaches_launcher:
  "split_command [''|'', ''b''] 2 = Inr ([], [''b''])
   \<and> driver_line succeeding ''| b'' shell0 world0 =
      Continue shell0 0
       \<lparr>trace =
          [Sys 0 (Fork 1) None, Sys 1 (Pipe (PipeRead 1) (PipeWrite 1)) None,
           Sys 1 (Fork 3) None, Sys 3 (Close (PipeRead 1)) None,
           Sys 3 (Dup2 (PipeWrite 1) STDOUT_FILENO) None,
           Sys 3 (Close (PipeWrite 1)) None, Undefined 3 NullPointer,
           Sys 1 (Waitpid 3) None,
           Sys 1 (Dup2 (PipeRead 1) STDIN_FILENO) None,
           Sys 1 (Close (PipeRead 1)) None, Sys 1 (Close (PipeWrite 1)) None,
           Sys 1 (Execvp ''b'' [''b'']) None, Sys 0 Wait None],
        tick = 12, ended = [(1, Exited 0), (3, Signaled 11)], faulted = True\<rparr>"
proof -
  have r: "maximal_runs (set delim) ''| b'' = [''|'', ''b'']"
    by (simp add: maximal_runs_def delim_def)
  show ?thesis
    by (simp add: driver_line_def tokenizer_runs r run_command_def
        world_defs handler_defs const_defs Let_def)
qed

subsection \<open>Launcher in configured-path mode\<close>

lemma close_saved_fields [simp]:
  "pid (fst (close_saved os p w)) = pid p"
  "path (fst (close_saved os p w)) = path p"
  "path_flag (fst (close_saved os p w)) = path_flag p"
  "verbose_flag (fst (close_saved os p w)) = verbose_flag p"
  by (simp_all add: close_saved_def)

text \<open>
  Claim C7. In configured-path mode the launcher takes the first directory \<open>d\<close> of the
  list, forms the candidate \<open>d @ argv[0]\<close> (in place, in the list) and attempts image
  replacement with it. When the attempt fails, whatever the error (``not found'' included),
  it reports the failure with \<^verbatim>\<open>perror\<close> and returns \<open>-1\<close>: the events added to the run are
  that single attempt and the report, and no later directory of the list is tried. When the
  attempt succeeds the image is replaced. With an empty list it reports an invalid command.
\<close>

theorem exec_path_mode:
  assumes "path_flag p"
  shows "(path p = [] \<longrightarrow>
            exec os cmd p w =
              (Some (- 1), fst (close_saved os p w),
               emit (Stderr (pid p) ''Error:  Invalid command.\<newline>'') (snd (close_saved os p w))))
   \<and> (path p = (d, room) # rest \<and> length d + length c0 + 1 \<le> room \<longrightarrow>
        exec os (c0 # args) p w =
          (case fails os (tick (snd (close_saved os p w))) of
             None \<Rightarrow>
               (None,
                (fst (close_saved os p w))\<lparr>path := (d @ c0, room) # rest\<rparr>,
                (snd (close_saved os p w))
                  \<lparr>trace := trace (snd (close_saved os p w))
                     @ [Sys (pid p) (Execvp (d @ c0) (c0 # args)) None],
                   tick := Suc (tick (snd (close_saved os p w))),
                   ended := (pid p, runs os (tick (snd (close_saved os p w))))
                            # ended (snd (close_saved os p w))\<rparr>)
           | Some e \<Rightarrow>
               (Some (- 1),
                (fst (close_saved os p w))\<lparr>path := (d @ c0, room) # rest\<rparr>,
                (snd (close_saved os p w))
                  \<lparr>trace := trace (snd (close_saved os p w))
                     @ [Sys (pid p) (Execvp (d @ c0) (c0 # args)) (Some e),
                        Perror (pid p) ''Error executing program.''],
                   tick := Suc (tick (snd (close_saved os p w)))\<rparr>)))"
proof -
  obtain p1 w1 where c: "close_saved os p w = (p1, w1)" by (cases "close_saved os p w")
  have p1: "pid p1 = pid p" "path p1 = path p" "path_flag p1 = path_flag p"
    "\<not> (verbose_flag p1 \<and> stdout_flag p1)"
    using c by (auto simp: close_saved_def split: if_splits)
  have c2: "close_saved os (p1\<lparr>path := (d @ c0, room) # rest\<rparr>) w1 = (p1\<lparr>path := (d @ c0, room) # rest\<rparr>, w1)"
    using p1(4) by (auto simp: close_saved_def)
  show ?thesis
    using assms p1(1-3)
    by (auto simp: exec_def c c2 sys_def perror_def emit_def finish_def split: option.splits)
qed

theorem exec_path_mode_witness:
  "exec not_found [''nope''] path_shell (world0\<lparr>tick := 1\<rparr>) =
     (Some (- 1),
      path_shell\<lparr>path := [(''/bin/nope'', 120), (''/usr/bin/'', 120)]\<rparr>,
      world0\<lparr>trace := [Sys 0 (Execvp ''/bin/nope'' [''nope'']) (Some ENOENT),
                        Perror 0 ''Error executing program.''],
               tick := 2\<rparr>)"
  using exec_path_mode
    [of path_shell not_found "[''nope'']" "world0\<lparr>tick := 1\<rparr>" "''/bin/''" 120 "[(''/usr/bin/'', 120)]" "''nope''" "[]"]
  by (simp add: example_defs close_saved_def)

subsection \<open>The path list\<close>

text \<open>
  Claim C6 as stated fails: a launcher call in configured-path mode appends the program
  name to the first directory string, here \<^verbatim>\<open>"/bin/"\<close> becoming \<^verbatim>\<open>"/bin/ls"\<close>.
\<close>

theorem exec_modifies_path:
  "path (fst (snd (exec not_found [''ls''] path_shell (world0\<lparr>tick := 1\<rparr>))))
     = [(''/bin/ls'', 120), (''/usr/bin/'', 120)]
   \<and> path path_shell = [(''/bin/'', 120), (''/usr/bin/'', 120)]"
  by (simp add: world_defs handler_defs example_defs Let_def)

lemma exec_path:
  "exec os cmd q w = (r, q', w') \<Longrightarrow>
     path q' = path q \<or>
     (\<exists>d room rest c0 args. path_flag q \<and> path q = (d, room) # rest \<and> cmd = c0 # args
        \<and> path q' = (d @ c0, room) # rest)"
  by (auto simp: exec_def close_saved_def Let_def split: if_splits list.splits prod.splits option.splits)

lemma run_command_path:
  "run_command os cmds n p w = Continue p' s w' \<or> run_command os cmds n p w = Leave p' s w'
     \<Longrightarrow> path p' = path p \<and> path_flag p' = path_flag p \<and> pid p' = pid p"
  by (auto simp: run_command_def Let_def split: if_splits prod.splits)

lemma driver_line_path:
  "driver_line os input p w = Continue p' s w' \<or> driver_line os input p w = Leave p' s w'
     \<Longrightarrow> path p' = path p \<and> path_flag p' = path_flag p \<and> pid p' = pid p"
  by (auto simp: driver_line_def dest: run_command_path [OF disjI1] run_command_path [OF disjI2]
      split: sum.splits prod.splits option.splits list.splits)

lemma driver_line_Abort:
  "driver_line os input p w = Abort p' w' \<Longrightarrow> p' = p"
  by (auto simp: driver_line_def run_command_def Let_def
      split: sum.splits prod.splits option.splits list.splits if_splits)

lemma driver_loop_path:
  "driver_loop os lines feof p w = (r, p', w') \<Longrightarrow> path p' = path p \<and> path_flag p' = path_flag p"
proof (induction lines arbitrary: p w)
  case Nil
  then show ?case by (auto simp: getline_failed_def leave_loop_def split: if_splits)
next
  case (Cons input rest)
  show ?case
  proof (cases "driver_line os input p (printf p ''tinysh> '' [] w)")
    case (Continue p1 s1 w1)
    with Cons.prems have "driver_loop os rest feof p1 w1 = (r, p', w')" by simp
    from Cons.IH [OF this] driver_line_path [OF disjI1 [OF Continue]]
    show ?thesis by simp
  next
    case (Leave p1 s1 w1)
    with Cons.prems driver_line_path [OF disjI2 [OF Leave]] show ?thesis
      by (auto simp: leave_loop_def)
  next
    case (Abort p1 w1)
    with Cons.prems driver_line_Abort [OF Abort] show ?thesis by auto
  qed
qed

text \<open>
  Claim C6, amended. The interactive shell never modifies its path list: after any sequence
  of input lines the list and the mode flag of the shell process are what they were at
  startup. The launcher runs in forked children only, and there it changes the process's
  copy of the list in one way at most: in configured-path mode it appends \<^verbatim>\<open>argv[0]\<close> to
  the first directory string.
\<close>

theorem shell_path_read_only:
  "(driver os lines feof p w = (r, p', w') \<longrightarrow> path p' = path p \<and> path_flag p' = path_flag p)
   \<and> (exec os cmd q v = (r', q', v') \<longrightarrow>
        path q' = path q \<or>
        (\<exists>d room rest c0 args. path_flag q \<and> path q = (d, room) # rest \<and> cmd = c0 # args
           \<and> path q' = (d @ c0, room) # rest))"
  using driver_loop_path [of os lines feof p _ r p' w'] exec_path [of os cmd q v r' q' v']
  by (auto simp: driver_def)

theorem shell_path_read_only_witness:
  "path (fst (snd (driver not_found [''ls -la'', ''cd /tmp'', ''verbose'', ''exit''] True path_shell world0)))
     = path path_shell
   \<and> path (fst (snd (exec not_found [''ls''] path_shell (world0\<lparr>tick := 1\<rparr>))))
     = [(''/bin/ls'', 120), (''/usr/bin/'', 120)]"
proof -
  obtain r p' w' where
    d: "driver not_found [''ls -la'', ''cd /tmp'', ''verbose'', ''exit''] True path_shell world0 = (r, p', w')"
    by (cases "driver not_found [''ls -la'', ''cd /tmp'', ''verbose'', ''exit''] True path_shell world0")
  obtain r' q' v' where
    e: "exec not_found [''ls''] path_shell (world0\<lparr>tick := 1\<rparr>) = (r', q', v')"
    by (cases "exec not_found [''ls''] path_shell (world0\<lparr>tick := 1\<rparr>)")
  from e have q: "path q' = [(''/bin/ls'', 120), (''/usr/bin/'', 120)]"
    by (auto simp: world_defs handler_defs example_defs Let_def)
  from shell_path_read_only [of not_found "[''ls -la'', ''cd /tmp'', ''verbose'', ''exit'']" True
      path_shell world0 r p' w' "[''ls'']" path_shell "world0\<lparr>tick := 1\<rparr>" r' q' v'] d e q
  show ?thesis by simp
qed

subsection \<open>Redirection handlers and a tail with a further operator\<close>






subsection \<open>A program that cannot be found\<close>







subsection \<open>Status of a dispatched command\<close>


text \<open>
  The child of the dispatcher always ends. Every path through the handlers ends the process
  that runs it: in \<^verbatim>\<open>_Exit\<close> after a handler returns, in the program it launches (the
  operating system of the model gives every launched program a termination status), or in
  undefined behaviour. The proof follows the recursion of \<^verbatim>\<open>special_command\<close> and
  \<^verbatim>\<open>pipe_handle\<close>.
\<close>

lemma ended_simple [simp]:
  "ended (emit e w) = ended w" "ended (printf p f a w) = ended w" "ended (perror p m w) = ended w"
  "ended (snd (sys os i c w)) = ended w" "ended (snd (sys_open os i n fl w)) = ended w"
  "ended (close_or_perror os p d w) = ended w"
  "ended (snd (close_saved os p w)) = ended w"
  by (auto simp: emit_def printf_def perror_def sys_def sys_open_def close_or_perror_def close_saved_def
      split: option.splits)

lemma exec_ended:
  "exec os cmd p w = (r, p', w') \<Longrightarrow>
     set (ended w) \<subseteq> set (ended w') \<and> pid p' = pid p \<and> (r = None \<longrightarrow> ends (pid p) w')"
  by (auto simp: exec_def close_saved_def sys_def finish_def fault_def emit_def perror_def vprintf_def
      printf_def ends_def split: if_splits list.splits option.splits prod.splits)

lemma keepsD: "keeps k \<Longrightarrow> A \<subseteq> set (ended w) \<Longrightarrow> A \<subseteq> set (ended (k r p w))"
  unfolding keeps_def by blast

lemma launch_ended:
  assumes "keeps k"
  shows "set (ended w) \<subseteq> set (ended (launch os cmd k p w))"
    and "\<forall>r q v. pid q = pid p \<longrightarrow> ends (pid p) (k r q v) \<Longrightarrow> ends (pid p) (launch os cmd k p w)"
proof -
  obtain r p' w' where e: "exec os cmd p w = (r, p', w')" by (cases "exec os cmd p w")
  note x = exec_ended [OF e]
  show "set (ended w) \<subseteq> set (ended (launch os cmd k p w))"
    using x keepsD [OF assms, of "set (ended w)" w' "- 1" p'] by (cases r) (simp_all add: launch_def e)
  show "ends (pid p) (launch os cmd k p w)" if "\<forall>r q v. pid q = pid p \<longrightarrow> ends (pid p) (k r q v)"
    using x that by (cases r) (simp_all add: launch_def e)
qed

lemma ended_print [simp]:
  "ended (vprintf p f a w) = ended w" "ended (vdprintf p f a w) = ended w"
  by (simp_all add: vprintf_def vdprintf_def printf_def emit_def)

lemma sys_ended: "sys os i c w = (r, w1) \<Longrightarrow> ended w1 = ended w"
  by (auto simp: sys_def)

lemma sys_open_ended: "sys_open os i n fl w = (r, w1) \<Longrightarrow> ended w1 = ended w"
  by (auto simp: sys_open_def sys_def split: option.splits)

lemma save_stdout_ended:
  "save_stdout os p w = (r, w1) \<Longrightarrow>
     ended w1 = ended w \<and> (\<forall>p1 w2. r = Some (p1, w2) \<longrightarrow> pid p1 = pid p)"
  by (auto simp: save_stdout_def sys_def perror_def emit_def split: if_splits option.splits)

lemma settles_k:
  "keeps k \<Longrightarrow> set (ended w) \<subseteq> set (ended w1) \<Longrightarrow> pid p = i \<Longrightarrow> settles k i w (k r p w1)"
  unfolding settles_def keeps_def by blast

lemma settles_launch:
  "keeps k \<Longrightarrow> set (ended w) \<subseteq> set (ended w1) \<Longrightarrow> pid p = i
     \<Longrightarrow> settles k i w (launch os cmd k p w1)"
  unfolding settles_def
  using launch_ended [where k = k and w = w1 and os = os and cmd = cmd and p = p]
  by auto

lemma redirect_child_settles:
  "keeps k \<Longrightarrow> settles k (pid p) w (redirect_child os flags opening head tail k p w)"
  unfolding redirect_child_def Let_def
  by (auto split: prod.splits option.splits
      dest!: sys_ended sys_open_ended save_stdout_ended intro!: settles_k settles_launch)

lemma pipe_child_settles:
  "keeps k \<Longrightarrow> settles k (pid p) w (pipe_child os rd wr head k p w)"
  unfolding pipe_child_def Let_def
  by (auto split: prod.splits option.splits
      dest!: sys_ended save_stdout_ended intro!: settles_k settles_launch)

lemma redirect_handle_settles:
  assumes "keeps k"
  shows "settles k (pid p) w (redirect_handle os flags banner opening head tail k p w)"
proof -
  let ?w0 = "vprintf p banner [arg0 head, arg0 tail] w"
  obtain r1 w1 where f: "sys os (pid p) (Fork (Suc (tick ?w0))) ?w0 = (r1, w1)"
    by (cases "sys os (pid p) (Fork (Suc (tick ?w0))) ?w0")
  have e1: "ended w1 = ended w" using sys_ended [OF f] by simp
  show ?thesis
  proof (cases r1)
    case (Some e)
    then show ?thesis
      unfolding redirect_handle_def Let_def f
      using e1 by (auto intro!: settles_k [OF assms])
  next
    case None
    let ?w3 = "redirect_child os flags opening head tail k (p\<lparr>pid := Suc (tick ?w0)\<rparr>)
        (vprintf p ''  Creating a child process for the command:  %s\<newline>'' [arg0 head] w1)"
    obtain r4 w4 where g: "sys os (pid p) (Waitpid (Suc (tick ?w0))) ?w3 = (r4, w4)"
      by (cases "sys os (pid p) (Waitpid (Suc (tick ?w0))) ?w3")
    have c: "set (ended v) \<subseteq> set (ended (redirect_child os flags opening head tail k q v))"
      for q v
      using redirect_child_settles [OF assms] by (simp add: settles_def)
    have "set (ended w) \<subseteq> set (ended ?w3)"
      using c [of "vprintf p ''  Creating a child process for the command:  %s\<newline>'' [arg0 head] w1"
          "p\<lparr>pid := Suc (tick ?w0)\<rparr>"] e1
      by simp
    then have e4: "set (ended w) \<subseteq> set (ended w4)" using sys_ended [OF g] by simp
    show ?thesis
      unfolding redirect_handle_def Let_def f None using g e4
      by (cases r4) (auto intro!: settles_k [OF assms])
  qed
qed

lemma pipe_parent_settles:
  assumes "keeps k"
  shows "case pipe_parent os rd wr child k p w of
           Inl w' \<Rightarrow> settles k (pid p) w w' | Inr w' \<Rightarrow> ended w' = ended w"
  unfolding pipe_parent_def
  by (auto split: prod.splits option.splits dest!: sys_ended intro!: settles_k [OF assms])

lemma pipe_setup_settles:
  assumes "keeps k"
  shows "case pipe_setup os head tail k p w of
           Inl w' \<Rightarrow> settles k (pid p) w w' | Inr w' \<Rightarrow> set (ended w) \<subseteq> set (ended w')"
proof -
  let ?w0 = "vprintf p ''  Piping:  %s --> %s\<newline>'' [arg0 head, arg0 tail] w"
  let ?rd = "PipeRead (tick ?w0)" and ?wr = "PipeWrite (tick ?w0)"
  obtain r1 w1 where f: "sys os (pid p) (Pipe ?rd ?wr) ?w0 = (r1, w1)"
    by (cases "sys os (pid p) (Pipe ?rd ?wr) ?w0")
  have e1: "ended w1 = ended w" using sys_ended [OF f] by simp
  show ?thesis
  proof (cases r1)
    case (Some e)
    then show ?thesis
      unfolding pipe_setup_def Let_def f using e1 by (auto intro!: settles_k [OF assms])
  next
    case n1: None
    let ?w2 = "vprintf p ''  Creating a pipe for interprocess communication.\<newline>'' [] w1"
    obtain r3 w3 where g: "sys os (pid p) (Fork (Suc (tick ?w2))) ?w2 = (r3, w3)"
      by (cases "sys os (pid p) (Fork (Suc (tick ?w2))) ?w2")
    have e3: "ended w3 = ended w" using sys_ended [OF g] e1 by simp
    show ?thesis
    proof (cases r3)
      case s3: (Some e)
      have "pipe_setup os head tail k p w =
          Inl (k (- 1) p (close_or_perror os p ?wr (close_or_perror os p ?rd
                 (perror p ''Error forking a process.'' w3))))"
        unfolding pipe_setup_def Let_def f n1 using g s3 by simp
      then show ?thesis
        using e3 by (auto intro!: settles_k [OF assms])
    next
      case n3: None
      let ?wc = "pipe_child os ?rd ?wr head k (p\<lparr>pid := Suc (tick ?w2)\<rparr>)
          (vprintf p ''  Creating a child process for the command:  %s\<newline>'' [arg0 head] w3)"
      have c: "set (ended w) \<subseteq> set (ended ?wc)"
        using pipe_child_settles [OF assms, where p = "p\<lparr>pid := Suc (tick ?w2)\<rparr>"
            and w = "vprintf p ''  Creating a child process for the command:  %s\<newline>'' [arg0 head] w3"
            and os = os and rd = ?rd and wr = ?wr and head = head] e3
        by (simp add: settles_def)
      have s: "pipe_setup os head tail k p w = pipe_parent os ?rd ?wr (Suc (tick ?w2)) k p ?wc"
        unfolding pipe_setup_def Let_def f n1 using g n3 by simp
      show ?thesis
        unfolding s using pipe_parent_settles [OF assms, where os = os and rd = ?rd and wr = ?wr
            and child = "Suc (tick ?w2)" and p = p and w = ?wc] c
        by (auto simp: settles_def split: sum.splits)
    qed
  qed
qed

lemma settles_fault: "settles k i w (fault i f w)"
  by (simp add: settles_def fault_def finish_def ends_def emit_def subset_insertI)

lemma settles_mono:
  "set (ended w) \<subseteq> set (ended w1) \<Longrightarrow> settles k i w1 w' \<Longrightarrow> settles k i w w'"
  unfolding settles_def by blast

lemma keeps_compose: "keeps k \<Longrightarrow> keeps (\<lambda>r. k (f r))"
  unfolding keeps_def by simp

lemma special_command_settles:
  "keeps k \<Longrightarrow> settles k (pid p) w (special_command os cmd num_cmd type k p w)"
  and pipe_handle_settles:
  "keeps k \<Longrightarrow> settles k (pid p) w (pipe_handle os head tail k p w)"
proof (induction os cmd num_cmd type k p w and os head tail k p w
    rule: special_command_pipe_handle.induct)
  case (1 os cmd num_cmd type k p w)
  show ?case
  proof (cases "split_command cmd num_cmd")
    case (Inl f)
    then show ?thesis by (simp add: special_command.simps settles_fault)
  next
    case (Inr ht)
    obtain head tail where ht: "ht = (head, tail)" by (cases ht)
    show ?thesis
      using Inr ht "1.prems" "1.IH" [OF Inr ht [symmetric]]
      by (auto simp: special_command.simps append_handle_def overwrite_handle_def
          intro!: redirect_handle_settles settles_k)
  qed
next
  case (2 os head tail k p w)
  note s = pipe_setup_settles [OF "2.prems", where os = os and head = head and tail = tail and p = p and w = w]
  show ?case
  proof (cases "pipe_setup os head tail k p w")
    case (Inl w1)
    with s show ?thesis by (simp add: pipe_handle.simps)
  next
    case (Inr w1)
    with s have m: "set (ended w) \<subseteq> set (ended w1)" by simp
    show ?thesis
    proof (cases "is_special_feature tail > 0")
      case True
      have "settles (\<lambda>r. k (if r = - 1 then - 1 else 0)) (pid p)
          (vprintf p ''    Tail command consists of special feature.\<newline>'' [] w1)
          (pipe_handle os head tail k p w)"
        using "2.IH" [OF Inr True keeps_compose [OF "2.prems"]] Inr True
        by (simp add: pipe_handle.simps)
      then have "settles k (pid p)
          (vprintf p ''    Tail command consists of special feature.\<newline>'' [] w1)
          (pipe_handle os head tail k p w)"
        by (simp add: settles_def)
      with m show ?thesis
        by (auto simp: settles_def)
    next
      case False
      then show ?thesis
        using Inr m "2.prems" by (auto simp: pipe_handle.simps intro!: settles_launch)
    qed
  qed
qed

lemma keeps_dispatch_exit: "keeps dispatch_exit"
  by (auto simp: keeps_def dispatch_exit_def exit_process_def finish_def emit_def)



lemma dispatch_child_keeps: "set (ended w) \<subseteq> set (ended (dispatch_child os cmd num_cmd p w))"
proof (cases "is_special_feature cmd > 0")
  case True
  then show ?thesis
    using special_command_settles [OF keeps_dispatch_exit, where p = p
        and w = "vprintf p ''Child:\<newline>'' [] w" and os = os and cmd = cmd
        and num_cmd = num_cmd and type = "is_special_feature cmd"]
    by (simp add: dispatch_child_def settles_def)
next
  case False
  let ?w = "vprintf p ''Program Output:\<newline>\<newline>'' []
      (vprintf p ''  Executing %s...\<newline>\<newline>'' [arg0 cmd] (vprintf p ''Child:\<newline>'' [] w))"
  obtain r p1 w1 where e: "exec os cmd p ?w = (r, p1, w1)" by (cases "exec os cmd p ?w")
  from exec_ended [OF e] False e keepsD [OF keeps_dispatch_exit, of "set (ended w)" w1 _ p1]
  show ?thesis
    by (cases r) (simp_all add: dispatch_child_def)
qed





subsection \<open>Processes and pipes of a pipeline\<close>

lemma obs_append [simp]:
  "forks (a @ b) = forks a @ forks b"
  "pipes (a @ b) = pipes a @ pipes b"
  "execs (a @ b) = execs a @ execs b"
  "calls_of i (a @ b) = calls_of i a @ calls_of i b"
  by (simp_all add: forks_def pipes_def execs_def calls_of_def)

lemma obs_Cons [simp]:
  "forks (e # tr) = forked e @ forks tr" "pipes (e # tr) = piped e @ pipes tr"
  "execs (e # tr) = launched e @ execs tr" "calls_of i (e # tr) = called i e @ calls_of i tr"
  by (simp_all add: forks_def pipes_def execs_def calls_of_def)

lemma obs_Nil [simp]:
  "forks [] = []" "pipes [] = []" "execs [] = []" "calls_of i [] = []"
  by (simp_all add: forks_def pipes_def execs_def calls_of_def)


lemma vprintf_obs [simp]:
  "forks (trace (vprintf p f a w)) = forks (trace w)"
  "pipes (trace (vprintf p f a w)) = pipes (trace w)"
  "execs (trace (vprintf p f a w)) = execs (trace w)"
  "calls_of i (trace (vprintf p f a w)) = calls_of i (trace w)"
  "tick (vprintf p f a w) = tick w"
  "faulted (vprintf p f a w) = faulted w"
  "ended (vprintf p f a w) = ended w"
  by (simp_all add: vprintf_def printf_def emit_def)

lemma vdprintf_obs [simp]:
  "forks (trace (vdprintf p f a w)) = forks (trace w)"
  "pipes (trace (vdprintf p f a w)) = pipes (trace w)"
  "execs (trace (vdprintf p f a w)) = execs (trace w)"
  "calls_of i (trace (vdprintf p f a w)) = calls_of i (trace w)"
  "tick (vdprintf p f a w) = tick w"
  "faulted (vdprintf p f a w) = faulted w"
  "ended (vdprintf p f a w) = ended w"
  by (simp_all add: vdprintf_def emit_def)

lemma can_launch_update [simp]:
  "can_launch (p\<lparr>pid := i\<rparr>) cmd = can_launch p cmd"
  "can_launch (p\<lparr>saved_stdout := d\<rparr>) cmd = can_launch p cmd"
  "can_launch (p\<lparr>stdout_flag := b\<rparr>) cmd = can_launch p cmd"
  by (simp_all add: can_launch_def)



















text \<open>
  The three-stage pipeline \<^verbatim>\<open>a | b | c\<close>: three image replacements linked by two pipes,
  and at its \<^verbatim>\<open>execvp\<close> the process of the middle stage holds the read end of the first
  pipe as standard input, the write end of the second as standard output, and no other
  descriptor of either pipe.
\<close>

theorem middle_stage_descriptors:
  "execs (trace (snd (exec_dispatch succeeding [''a'', ''|'', ''b'', ''|'', ''c''] 5 shell0 world0)))
     = [(3, [''a'']), (13, [''b'']), (1, [''c''])]
   \<and> pipes (trace (snd (exec_dispatch succeeding [''a'', ''|'', ''b'', ''|'', ''c''] 5 shell0 world0)))
     = [(PipeRead 1, PipeWrite 1), (PipeRead 11, PipeWrite 11)]
   \<and> descriptors_at_exec
        (trace (snd (exec_dispatch succeeding [''a'', ''|'', ''b'', ''|'', ''c''] 5 shell0 world0)))
        13 terminal
     = Some [(STDOUT_FILENO, PipeWrite 11), (STDIN_FILENO, PipeRead 1)]"
proof -
  have run: "trace (snd (exec_dispatch succeeding [''a'', ''|'', ''b'', ''|'', ''c''] 5 shell0 world0)) =
        [Sys 0 (Fork 1) None, Sys 1 (Pipe (PipeRead 1) (PipeWrite 1)) None,
         Sys 1 (Fork 3) None, Sys 3 (Close (PipeRead 1)) None,
         Sys 3 (Dup2 (PipeWrite 1) STDOUT_FILENO) None,
         Sys 3 (Close (PipeWrite 1)) None,
         Sys 3 (Execvp ''a'' [''a'']) None, Sys 1 (Waitpid 3) None,
         Sys 1 (Dup2 (PipeRead 1) STDIN_FILENO) None,
         Sys 1 (Close (PipeRead 1)) None, Sys 1 (Close (PipeWrite 1)) None,
         Sys 1 (Pipe (PipeRead 11) (PipeWrite 11)) None,
         Sys 1 (Fork 13) None, Sys 13 (Close (PipeRead 11)) None,
         Sys 13 (Dup2 (PipeWrite 11) STDOUT_FILENO) None,
         Sys 13 (Close (PipeWrite 11)) None,
         Sys 13 (Execvp ''b'' [''b'']) None, Sys 1 (Waitpid 13) None,
         Sys 1 (Dup2 (PipeRead 11) STDIN_FILENO) None,
         Sys 1 (Close (PipeRead 11)) None,
         Sys 1 (Close (PipeWrite 11)) None,
         Sys 1 (Execvp ''c'' [''c'']) None, Sys 0 Wait None]"
    by (simp add: world_defs handler_defs const_defs Let_def)
  show ?thesis
    unfolding run by (simp add: install_def terminal_def)
qed

end
